theory Spec2Isabelle
  imports Complex_Main
begin

section \<open>JavaScript numbers\<close>

text \<open>
  The services compute with JavaScript numbers. A number is modelled as an exact
  rational or one of the three special values of IEEE 754 arithmetic, so that a
  division by zero, an overflow to infinity and a not-a-number are branches of the
  model exactly where the source produces them. Two idealisations: finite values are
  exact (the rounding of binary doubles is not modelled), and negative zero is not
  distinguished from zero.
\<close>

datatype jsnum = Fin rat | PInf | NInf | NaN

fun js_neg :: "jsnum \<Rightarrow> jsnum" where
  "js_neg (Fin a) = Fin (- a)"
| "js_neg PInf = NInf"
| "js_neg NInf = PInf"
| "js_neg NaN = NaN"

fun js_add :: "jsnum \<Rightarrow> jsnum \<Rightarrow> jsnum" where
  "js_add NaN y = NaN"
| "js_add x NaN = NaN"
| "js_add (Fin a) (Fin b) = Fin (a + b)"
| "js_add PInf NInf = NaN"
| "js_add NInf PInf = NaN"
| "js_add PInf y = PInf"
| "js_add x PInf = PInf"
| "js_add NInf y = NInf"
| "js_add x NInf = NInf"

definition js_sub :: "jsnum \<Rightarrow> jsnum \<Rightarrow> jsnum" where
  "js_sub x y = js_add x (js_neg y)"

fun js_mul :: "jsnum \<Rightarrow> jsnum \<Rightarrow> jsnum" where
  "js_mul NaN y = NaN"
| "js_mul x NaN = NaN"
| "js_mul (Fin a) (Fin b) = Fin (a * b)"
| "js_mul PInf (Fin b) = (if 0 < b then PInf else if b < 0 then NInf else NaN)"
| "js_mul NInf (Fin b) = (if 0 < b then NInf else if b < 0 then PInf else NaN)"
| "js_mul (Fin a) PInf = (if 0 < a then PInf else if a < 0 then NInf else NaN)"
| "js_mul (Fin a) NInf = (if 0 < a then NInf else if a < 0 then PInf else NaN)"
| "js_mul PInf PInf = PInf"
| "js_mul PInf NInf = NInf"
| "js_mul NInf PInf = NInf"
| "js_mul NInf NInf = PInf"

fun js_div :: "jsnum \<Rightarrow> jsnum \<Rightarrow> jsnum" where
  "js_div NaN y = NaN"
| "js_div x NaN = NaN"
| "js_div (Fin a) (Fin b) =
     (if b \<noteq> 0 then Fin (a / b)
      else if 0 < a then PInf else if a < 0 then NInf else NaN)"
| "js_div (Fin a) PInf = Fin 0"
| "js_div (Fin a) NInf = Fin 0"
| "js_div PInf (Fin b) = (if 0 \<le> b then PInf else NInf)"
| "js_div NInf (Fin b) = (if 0 \<le> b then NInf else PInf)"
| "js_div PInf PInf = NaN"
| "js_div PInf NInf = NaN"
| "js_div NInf PInf = NaN"
| "js_div NInf NInf = NaN"

text \<open>Comparisons: every comparison with NaN is false.\<close>

fun js_lt :: "jsnum \<Rightarrow> jsnum \<Rightarrow> bool" where
  "js_lt NaN y = False"
| "js_lt x NaN = False"
| "js_lt (Fin a) (Fin b) = (a < b)"
| "js_lt x NInf = False"
| "js_lt PInf y = False"
| "js_lt NInf y = True"
| "js_lt x PInf = True"

definition js_gt :: "jsnum \<Rightarrow> jsnum \<Rightarrow> bool" where
  "js_gt x y = js_lt y x"

definition js_le :: "jsnum \<Rightarrow> jsnum \<Rightarrow> bool" where
  "js_le x y = (x \<noteq> NaN \<and> y \<noteq> NaN \<and> (js_lt x y \<or> x = y))"

definition js_ge :: "jsnum \<Rightarrow> jsnum \<Rightarrow> bool" where
  "js_ge x y = js_le y x"

text \<open>\<open>Math.round\<close> rounds to the nearest integer, halves upwards.\<close>

fun js_round :: "jsnum \<Rightarrow> jsnum" where
  "js_round (Fin a) = Fin (of_int \<lfloor>a + 1 / 2\<rfloor>)"
| "js_round x = x"

fun js_abs :: "jsnum \<Rightarrow> jsnum" where
  "js_abs (Fin a) = Fin \<bar>a\<bar>"
| "js_abs NaN = NaN"
| "js_abs x = PInf"

text \<open>\<open>Math.min\<close> and \<open>Math.max\<close> of two numbers: NaN if either is NaN.\<close>

definition js_min :: "jsnum \<Rightarrow> jsnum \<Rightarrow> jsnum" where
  "js_min x y = (if x = NaN \<or> y = NaN then NaN else if js_lt y x then y else x)"

definition js_max :: "jsnum \<Rightarrow> jsnum \<Rightarrow> jsnum" where
  "js_max x y = (if x = NaN \<or> y = NaN then NaN else if js_lt x y then y else x)"



text \<open>\<open>xs.reduce((s, x) => s + x, 0)\<close>\<close>

definition js_sum :: "jsnum list \<Rightarrow> jsnum" where
  "js_sum xs = foldl js_add (Fin 0) xs"

section \<open>JavaScript objects used as dictionaries\<close>

text \<open>
  A \<open>Record<string, T>\<close> is an association list in the order \<open>Object.keys\<close>
  enumerates it: assigning to a key that is present replaces its value in place,
  assigning to a new key appends it. (Keys that are canonical array indices, which
  JavaScript enumerates first, do not occur: the keys are state codes, outcome names,
  outcome identifiers and sportsbook identifiers.)
\<close>

fun rec_set :: "'k \<Rightarrow> 'v \<Rightarrow> ('k \<times> 'v) list \<Rightarrow> ('k \<times> 'v) list" where
  "rec_set k v [] = [(k, v)]"
| "rec_set k v ((k', v') # m) =
     (if k = k' then (k, v) # m else (k', v') # rec_set k v m)"

section \<open>Arbitrage service: state filter\<close>

text \<open>
  The state map (state code to the bookmakers accessible there), in the order
  \<open>Object.entries\<close> enumerates it. \<open>updateStateMap\<close> can replace it, so the filter
  takes the map as a parameter.
\<close>

type_synonym state_map = "(string \<times> string list) list"

definition defaultStateMap :: state_map where
  "defaultStateMap =
     [(''AL'', [''draftkings'', ''fanduel'', ''caesars'', ''betmgm'']),
      (''AK'', [''draftkings'', ''fanduel'']),
      (''AZ'', [''draftkings'', ''fanduel'', ''caesars'', ''betmgm'', ''betrivers'', ''pointsbet'', ''wynnbet'']),
      (''AR'', [''draftkings'', ''fanduel'', ''caesars'', ''betmgm'', ''betrivers'']),
      (''CA'', [''draftkings'', ''fanduel'']),
      (''CO'', [''draftkings'', ''fanduel'', ''caesars'', ''betmgm'', ''betrivers'', ''pointsbet'', ''wynnbet'']),
      (''CT'', [''draftkings'', ''fanduel'', ''caesars'', ''betmgm'', ''betrivers'']),
      (''DE'', [''draftkings'', ''fanduel'', ''betmgm'', ''betrivers'']),
      (''FL'', [''draftkings'', ''fanduel'', ''caesars'', ''betmgm'']),
      (''GA'', [''draftkings'', ''fanduel'']),
      (''HI'', [''draftkings'', ''fanduel'']),
      (''ID'', [''draftkings'', ''fanduel'']),
      (''IL'', [''draftkings'', ''fanduel'', ''caesars'', ''betmgm'', ''betrivers'', ''pointsbet'', ''wynnbet'']),
      (''IN'', [''draftkings'', ''fanduel'', ''caesars'', ''betmgm'', ''betrivers'', ''pointsbet'']),
      (''IA'', [''draftkings'', ''fanduel'', ''caesars'', ''betmgm'', ''betrivers'']),
      (''KS'', [''draftkings'', ''fanduel'', ''caesars'', ''betmgm'', ''betrivers'']),
      (''KY'', [''draftkings'', ''fanduel'', ''caesars'', ''betmgm'', ''betrivers'']),
      (''LA'', [''draftkings'', ''fanduel'', ''caesars'', ''betmgm'', ''betrivers'']),
      (''ME'', [''draftkings'', ''fanduel'', ''caesars'', ''betmgm'']),
      (''MD'', [''draftkings'', ''fanduel'', ''caesars'', ''betmgm'', ''betrivers'']),
      (''MA'', [''draftkings'', ''fanduel'', ''caesars'', ''betmgm'', ''betrivers'', ''wynnbet'']),
      (''MI'', [''draftkings'', ''fanduel'', ''caesars'', ''betmgm'', ''betrivers'', ''pointsbet'', ''wynnbet'']),
      (''MN'', [''draftkings'', ''fanduel'', ''caesars'', ''betmgm'']),
      (''MS'', [''draftkings'', ''fanduel'', ''caesars'', ''betmgm'']),
      (''MO'', [''draftkings'', ''fanduel'', ''caesars'', ''betmgm'']),
      (''MT'', [''draftkings'', ''fanduel'']),
      (''NE'', [''draftkings'', ''fanduel'', ''caesars'', ''betmgm'']),
      (''NV'', [''draftkings'', ''fanduel'', ''caesars'', ''betmgm'', ''betrivers'', ''pointsbet'', ''wynnbet'']),
      (''NH'', [''draftkings'', ''fanduel'', ''caesars'', ''betmgm'']),
      (''NJ'', [''draftkings'', ''fanduel'', ''caesars'', ''betmgm'', ''betrivers'', ''pointsbet'', ''wynnbet'']),
      (''NM'', [''draftkings'', ''fanduel'']),
      (''NY'', [''draftkings'', ''fanduel'', ''caesars'', ''betmgm'', ''betrivers'', ''pointsbet'', ''wynnbet'']),
      (''NC'', [''draftkings'', ''fanduel'', ''caesars'', ''betmgm'', ''betrivers'']),
      (''ND'', [''draftkings'', ''fanduel'']),
      (''OH'', [''draftkings'', ''fanduel'', ''caesars'', ''betmgm'', ''betrivers'', ''pointsbet'']),
      (''OK'', [''draftkings'', ''fanduel'']),
      (''OR'', [''draftkings'', ''fanduel'']),
      (''PA'', [''draftkings'', ''fanduel'', ''caesars'', ''betmgm'', ''betrivers'', ''pointsbet'', ''wynnbet'']),
      (''RI'', [''draftkings'', ''fanduel'', ''caesars'', ''betmgm'']),
      (''SC'', [''draftkings'', ''fanduel'']),
      (''SD'', [''draftkings'', ''fanduel'']),
      (''TN'', [''draftkings'', ''fanduel'', ''caesars'', ''betmgm'', ''betrivers'']),
      (''TX'', [''draftkings'', ''fanduel'']),
      (''UT'', [''draftkings'', ''fanduel'']),
      (''VT'', [''draftkings'', ''fanduel'', ''caesars'', ''betmgm'']),
      (''VA'', [''draftkings'', ''fanduel'', ''caesars'', ''betmgm'', ''betrivers'']),
      (''WA'', [''draftkings'', ''fanduel'']),
      (''WV'', [''draftkings'', ''fanduel'', ''caesars'', ''betmgm'', ''betrivers'']),
      (''WI'', [''draftkings'', ''fanduel'']),
      (''WY'', [''draftkings'', ''fanduel''])]"

text \<open>
  One iteration of the loop over the entries of the state map. The inner loop walks
  \<open>accessibleBookmakers\<close> from the end and splices out every bookmaker the state does
  not list, which keeps the others in their order.
\<close>

definition filter_step :: "string list \<Rightarrow> string list \<Rightarrow> string \<times> string list \<Rightarrow> string list" where
  "filter_step states accessibleBookmakers entry =
     (if fst entry \<in> set states then
        (if accessibleBookmakers = [] then accessibleBookmakers @ snd entry
         else filter (\<lambda>b. b \<in> set (snd entry)) accessibleBookmakers)
      else accessibleBookmakers)"

text \<open>\<open>Array.from(new Set(xs))\<close>: the first occurrence of each element, in order.\<close>

definition uniq :: "'a list \<Rightarrow> 'a list" where
  "uniq xs = foldl (\<lambda>seen x. if x \<in> set seen then seen else seen @ [x]) [] xs"

definition filterBookmakersByStates :: "state_map \<Rightarrow> string list \<Rightarrow> string list" where
  "filterBookmakersByStates stateMap states =
     (if states = [] then [] else uniq (foldl (filter_step states) [] stateMap))"

section \<open>Arbitrage service: scan over odds data\<close>

record bookmaker =
  bk_key :: string
  bk_price :: jsnum

record odds_outcome =
  oc_name :: string
  oc_bookmakers :: "bookmaker list"

record odds_market =
  mk_type :: string
  mk_description :: string
  mk_outcomes :: "odds_outcome list"

record odds_event =
  ev_eventId :: string
  ev_sport :: string
  ev_league :: string
  ev_homeTeam :: string
  ev_awayTeam :: string
  ev_startTime :: string
  ev_markets :: "odds_market list"

record best_price =
  bp_sportsbook :: string
  bp_price :: jsnum
  bp_decimal :: jsnum

text \<open>
  The text of \<open>formatOdds\<close> is kept as its two parts: the sign prefix and the number
  that is printed after it.
\<close>

type_synonym odds_text = "string \<times> jsnum"

record pick_leg =
  leg_outcome :: string
  leg_sportsbook :: string
  leg_odds :: odds_text
  leg_stake :: jsnum

record pick_event =
  pe_id :: string
  pe_homeTeam :: string
  pe_awayTeam :: string
  pe_sport :: string
  pe_league :: string
  pe_startTime :: string

record max_profit_pick =
  mp_event :: pick_event
  mp_market_type :: string
  mp_market_description :: string
  mp_legs :: "pick_leg list"
  mp_profitPct :: jsnum
  mp_lockedProfit :: jsnum
  mp_validityWindow :: nat
  mp_confidenceScore :: jsnum

definition convertAmericanToDecimal :: "jsnum \<Rightarrow> jsnum" where
  "convertAmericanToDecimal americanOdds =
     (if js_gt americanOdds (Fin 0)
      then js_add (js_div americanOdds (Fin 100)) (Fin 1)
      else js_add (js_div (Fin 100) (js_abs americanOdds)) (Fin 1))"

definition formatSportsbookName :: "string \<Rightarrow> string" where
  "formatSportsbookName k =
     (case map_of
        [(''fanduel'', ''FanDuel''), (''draftkings'', ''DraftKings''),
         (''caesars'', ''Caesars''), (''betmgm'', ''BetMGM''),
         (''betrivers'', ''BetRivers'')] k of
        Some n \<Rightarrow> n
      | None \<Rightarrow> k)"

definition formatOdds :: "jsnum \<Rightarrow> odds_text" where
  "formatOdds americanOdds =
     (if js_gt americanOdds (Fin 0) then (''+'', americanOdds) else ([], americanOdds))"

text \<open>\<open>toUpperCase\<close> on the letters a to z (market types are ASCII keys).\<close>

definition upper_char :: "char \<Rightarrow> char" where
  "upper_char c =
     (let n = (of_char c :: nat) in if 97 \<le> n \<and> n \<le> 122 then char_of (n - 32) else c)"

definition toUpperCase :: "string \<Rightarrow> string" where
  "toUpperCase s = map upper_char s"

text \<open>The inner loop over the bookmakers of one outcome.\<close>

definition best_step :: "best_price \<Rightarrow> bookmaker \<Rightarrow> best_price" where
  "best_step bestPrice b =
     (let decimal = convertAmericanToDecimal (bk_price b) in
      if js_gt decimal (bp_decimal bestPrice)
      then \<lparr>bp_sportsbook = bk_key b, bp_price = bk_price b, bp_decimal = decimal\<rparr>
      else bestPrice)"

definition best_of_outcome :: "odds_outcome \<Rightarrow> best_price" where
  "best_of_outcome oc =
     foldl best_step \<lparr>bp_sportsbook = [], bp_price = NInf, bp_decimal = Fin 0\<rparr>
       (oc_bookmakers oc)"

text \<open>
  The loop over the outcomes of one market: an outcome whose best sportsbook is the
  empty string (no bookmaker beat the initial value) gets no entry.
\<close>

definition bestPrices_step ::
  "(string \<times> best_price) list \<Rightarrow> odds_outcome \<Rightarrow> (string \<times> best_price) list" where
  "bestPrices_step m oc =
     (let bestPrice = best_of_outcome oc in
      if bp_sportsbook bestPrice \<noteq> [] then rec_set (oc_name oc) bestPrice m else m)"

definition bestPrices :: "odds_market \<Rightarrow> (string \<times> best_price) list" where
  "bestPrices mk = foldl bestPrices_step [] (mk_outcomes mk)"

text \<open>\<open>outcomes.reduce((s, outcome) => s + (1 / bestPrices[outcome].decimal), 0)\<close>\<close>

definition implied_sum :: "(string \<times> best_price) list \<Rightarrow> jsnum" where
  "implied_sum bps = js_sum (map (\<lambda>ob. js_div (Fin 1) (bp_decimal (snd ob))) bps)"

definition bankroll :: jsnum where
  "bankroll = Fin 10000"

definition pick_leg_of :: "jsnum \<Rightarrow> string \<times> best_price \<Rightarrow> pick_leg" where
  "pick_leg_of sumv ob =
     (let stakeFraction = js_div (js_div (Fin 1) (bp_decimal (snd ob))) sumv;
          stake = js_round (js_mul bankroll stakeFraction)
      in \<lparr>leg_outcome = fst ob,
          leg_sportsbook = formatSportsbookName (bp_sportsbook (snd ob)),
          leg_odds = formatOdds (bp_price (snd ob)),
          leg_stake = stake\<rparr>)"

definition profit_of_sum :: "jsnum \<Rightarrow> jsnum" where
  "profit_of_sum sumv = js_mul (js_sub (js_div (Fin 1) sumv) (Fin 1)) (Fin 100)"

text \<open>\<open>Math.round(x * 100) / 100\<close>\<close>

definition round2 :: "jsnum \<Rightarrow> jsnum" where
  "round2 x = js_div (js_round (js_mul x (Fin 100))) (Fin 100)"

text \<open>
  The body of the loop over the markets of an event: the opportunity pushed for this
  market, if any. The keys of \<open>bestPrices\<close> are distinct, so mapping over its entries
  is mapping over its keys and looking each one up. The event's start time is carried
  as the source string (its rendering by \<open>toLocaleString\<close> is not modelled).
\<close>

definition market_pick :: "odds_event \<Rightarrow> odds_market \<Rightarrow> jsnum \<Rightarrow> max_profit_pick option" where
  "market_pick ev mk minProfitPct =
     (let bps = bestPrices mk; outcomes = map fst bps in
      if 2 \<le> length outcomes then
        (let sumv = implied_sum bps in
         if js_lt sumv (Fin (98 / 100)) then
           (let profitPct = profit_of_sum sumv in
            if js_ge profitPct minProfitPct then
              (let legs = map (pick_leg_of sumv) bps;
                   lockedProfit = js_mul bankroll (js_sub (js_div (Fin 1) sumv) (Fin 1))
               in Some \<lparr>mp_event =
                           \<lparr>pe_id = ev_eventId ev, pe_homeTeam = ev_homeTeam ev,
                            pe_awayTeam = ev_awayTeam ev, pe_sport = ev_sport ev,
                            pe_league = ev_league ev, pe_startTime = ev_startTime ev\<rparr>,
                         mp_market_type = toUpperCase (mk_type mk),
                         mp_market_description = mk_description mk,
                         mp_legs = legs,
                         mp_profitPct = round2 profitPct,
                         mp_lockedProfit = round2 lockedProfit,
                         mp_validityWindow = 300,
                         mp_confidenceScore =
                           js_min (Fin (95 / 100))
                             (js_add (Fin (7 / 10)) (js_div profitPct (Fin 10)))\<rparr>)
            else None)
         else None)
      else None)"

definition calculateArbitrageOpportunities ::
  "odds_event list \<Rightarrow> jsnum \<Rightarrow> max_profit_pick list" where
  "calculateArbitrageOpportunities oddsData minProfitPct =
     concat (map (\<lambda>ev. List.map_filter (\<lambda>mk. market_pick ev mk minProfitPct) (ev_markets ev))
       oddsData)"

section \<open>Arbitrage service: detection over stored quotes\<close>

text \<open>
  A stored quote. \<open>q_priceValue\<close> is the number \<open>parseFloat\<close> reads from the decimal
  column, \<open>q_timestamp\<close> the capture time in milliseconds.
\<close>

record quote =
  q_sportsbookId :: string
  q_outcomeId :: string
  q_priceValue :: jsnum
  q_timestamp :: int

text \<open>
  \<open>quotes.reduce((best, current) => currentPrice > bestPrice ? current : best)\<close>
  on a non-empty array, given as its first element and the rest.
\<close>

definition better_quote :: "quote \<Rightarrow> quote \<Rightarrow> quote" where
  "better_quote best current =
     (if js_gt (q_priceValue current) (q_priceValue best) then current else best)"

definition best_quote :: "quote \<Rightarrow> quote list \<Rightarrow> quote" where
  "best_quote q qs = foldl better_quote q qs"

text \<open>
  Grouping by outcome: \<open>groups[k]\<close> is created on the first quote of outcome \<open>k\<close>, so a
  group is never empty and is kept as its first quote and the later ones.
\<close>

fun group_push :: "quote \<Rightarrow> (string \<times> quote \<times> quote list) list \<Rightarrow> (string \<times> quote \<times> quote list) list" where
  "group_push q [] = [(q_outcomeId q, q, [])]"
| "group_push q ((k, q0, qs) # g) =
     (if q_outcomeId q = k then (k, q0, qs @ [q]) # g else (k, q0, qs) # group_push q g)"

definition outcomeGroups :: "quote list \<Rightarrow> (string \<times> quote \<times> quote list) list" where
  "outcomeGroups quotes = foldl (\<lambda>groups q. group_push q groups) [] quotes"

record best_odd =
  bo_outcomeId :: string
  bo_quote :: quote
  bo_price :: jsnum

definition bestOdds :: "quote list \<Rightarrow> best_odd list" where
  "bestOdds quotes =
     map (\<lambda>(outcomeId, q0, qs).
            (let bestQuote = best_quote q0 qs in
             \<lparr>bo_outcomeId = outcomeId, bo_quote = bestQuote,
              bo_price = q_priceValue bestQuote\<rparr>))
       (outcomeGroups quotes)"

definition impliedProbabilities :: "quote list \<Rightarrow> jsnum list" where
  "impliedProbabilities quotes = map (\<lambda>odd. js_div (Fin 1) (bo_price odd)) (bestOdds quotes)"

definition totalImpliedProb :: "quote list \<Rightarrow> jsnum" where
  "totalImpliedProb quotes = js_sum (impliedProbabilities quotes)"

record arb_leg =
  al_sportsbookId :: string
  al_outcomeId :: string
  al_priceValue :: jsnum
  al_stakeFraction :: jsnum

record arbitrage_calculation =
  ac_eventId :: string
  ac_marketId :: string
  ac_legs :: "arb_leg list"
  ac_expectedProfitPct :: jsnum
  ac_recommendedStakes :: "(string \<times> jsnum) list"
  ac_confidenceScore :: jsnum

text \<open>\<open>calculateConfidenceScore\<close>, with the clock reading \<open>now\<close> as a parameter.\<close>

definition calculateConfidenceScore :: "int \<Rightarrow> quote list \<Rightarrow> jsnum" where
  "calculateConfidenceScore now quotes =
     (let avgAge = js_div (js_sum (map (\<lambda>q. Fin (of_int (now - q_timestamp q))) quotes))
                     (Fin (of_nat (length quotes)));
          ageScore = js_max (Fin 0) (js_sub (Fin 1) (js_div avgAge (Fin (60 * 60 * 1000))));
          countScore = js_min (Fin 1) (js_div (Fin (of_nat (length quotes))) (Fin 5))
      in round2 (js_add (js_mul ageScore (Fin (6 / 10))) (js_mul countScore (Fin (4 / 10)))))"

definition arb_legs :: "quote list \<Rightarrow> arb_leg list" where
  "arb_legs quotes =
     map (\<lambda>(odd, prob).
            \<lparr>al_sportsbookId = q_sportsbookId (bo_quote odd),
             al_outcomeId = bo_outcomeId odd,
             al_priceValue = bo_price odd,
             al_stakeFraction = js_div prob (totalImpliedProb quotes)\<rparr>)
       (zip (bestOdds quotes) (impliedProbabilities quotes))"

definition recommendedStakes :: "arb_leg list \<Rightarrow> (string \<times> jsnum) list" where
  "recommendedStakes legs =
     foldl (\<lambda>stakes leg.
              rec_set (al_sportsbookId leg) (js_round (js_mul bankroll (al_stakeFraction leg))) stakes)
       [] legs"

definition detectArbitrage ::
  "int \<Rightarrow> string \<Rightarrow> string \<Rightarrow> quote list \<Rightarrow> arbitrage_calculation option" where
  "detectArbitrage now eventId marketId quotes =
     (if length quotes < 2 then None
      else if length (outcomeGroups quotes) < 2 then None
      else if js_ge (totalImpliedProb quotes) (Fin 1) then None
      else
        (let profitMargin = js_sub (Fin 1) (totalImpliedProb quotes);
             expectedProfitPct = js_mul profitMargin (Fin 100);
             legs = arb_legs quotes
         in Some \<lparr>ac_eventId = eventId, ac_marketId = marketId, ac_legs = legs,
                   ac_expectedProfitPct = expectedProfitPct,
                   ac_recommendedStakes = recommendedStakes legs,
                   ac_confidenceScore = calculateConfidenceScore now quotes\<rparr>))"

section \<open>Hedge service\<close>

text \<open>
  A user bet: \<open>ub_stake\<close> and \<open>ub_priceAtBet\<close> are the numbers \<open>parseFloat\<close> reads from
  the decimal columns.
\<close>

record user_bet =
  ub_id :: string
  ub_eventId :: string
  ub_marketId :: string
  ub_outcomeId :: string
  ub_stake :: jsnum
  ub_priceAtBet :: jsnum
  ub_isTracked :: bool

record hedge_leg =
  hl_sportsbookId :: string
  hl_outcomeId :: string
  hl_priceValue :: jsnum
  hl_stake :: jsnum

text \<open>
  The result of \<open>calculateHedge\<close>. The rationale text, which prints the two profit
  bounds with two decimals, is not modelled.
\<close>

record hedge_calculation =
  hc_suggestedLegs :: "hedge_leg list"
  hc_lockedProfitLow :: jsnum
  hc_lockedProfitHigh :: jsnum
  hc_confidence :: jsnum

definition calculateHedgeConfidence :: "int \<Rightarrow> quote \<Rightarrow> jsnum" where
  "calculateHedgeConfidence now hedgeQuote =
     (let quoteAge = Fin (of_int (now - q_timestamp hedgeQuote));
          ageScore = js_max (Fin 0) (js_sub (Fin 1) (js_div quoteAge (Fin (5 * 60 * 1000))));
          baseScore = Fin (7 / 10)
      in round2 (js_add baseScore (js_mul ageScore (Fin (3 / 10)))))"

definition potentialReturn :: "user_bet \<Rightarrow> jsnum" where
  "potentialReturn bet = js_mul (ub_stake bet) (ub_priceAtBet bet)"

definition opposingQuotes :: "user_bet \<Rightarrow> quote list \<Rightarrow> quote list" where
  "opposingQuotes bet quotes = filter (\<lambda>q. q_outcomeId q \<noteq> ub_outcomeId bet) quotes"

definition hedgeStake :: "user_bet \<Rightarrow> quote \<Rightarrow> jsnum" where
  "hedgeStake bet bestOpposingQuote = js_div (potentialReturn bet) (q_priceValue bestOpposingQuote)"

definition hedgeReturn :: "user_bet \<Rightarrow> quote \<Rightarrow> jsnum" where
  "hedgeReturn bet bestOpposingQuote =
     js_mul (hedgeStake bet bestOpposingQuote) (q_priceValue bestOpposingQuote)"

definition profitIfOriginalWins :: "user_bet \<Rightarrow> quote \<Rightarrow> jsnum" where
  "profitIfOriginalWins bet bestOpposingQuote =
     js_sub (js_sub (potentialReturn bet) (ub_stake bet)) (hedgeStake bet bestOpposingQuote)"

definition profitIfHedgeWins :: "user_bet \<Rightarrow> quote \<Rightarrow> jsnum" where
  "profitIfHedgeWins bet bestOpposingQuote =
     js_sub (js_sub (hedgeReturn bet bestOpposingQuote) (ub_stake bet))
       (hedgeStake bet bestOpposingQuote)"

definition calculateHedge :: "int \<Rightarrow> user_bet \<Rightarrow> quote list \<Rightarrow> hedge_calculation option" where
  "calculateHedge now bet quotes =
     (case opposingQuotes bet quotes of
        [] \<Rightarrow> None
      | q0 # qs \<Rightarrow>
          (let bestOpposingQuote = best_quote q0 qs;
               hedgeOdds = q_priceValue bestOpposingQuote;
               lockedProfitLow =
                 js_min (profitIfOriginalWins bet bestOpposingQuote)
                   (profitIfHedgeWins bet bestOpposingQuote);
               lockedProfitHigh =
                 js_max (profitIfOriginalWins bet bestOpposingQuote)
                   (profitIfHedgeWins bet bestOpposingQuote)
           in if js_le lockedProfitLow (Fin 0) then None
              else Some \<lparr>hc_suggestedLegs =
                            [\<lparr>hl_sportsbookId = q_sportsbookId bestOpposingQuote,
                              hl_outcomeId = q_outcomeId bestOpposingQuote,
                              hl_priceValue = hedgeOdds,
                              hl_stake = js_round (hedgeStake bet bestOpposingQuote)\<rparr>],
                          hc_lockedProfitLow = lockedProfitLow,
                          hc_lockedProfitHigh = lockedProfitHigh,
                          hc_confidence = calculateHedgeConfidence now bestOpposingQuote\<rparr>))"

text \<open>The quote \<open>calculateHedge\<close> hedges with, when there is an opposing quote.\<close>

definition bestOpposingQuote :: "user_bet \<Rightarrow> quote list \<Rightarrow> quote option" where
  "bestOpposingQuote bet quotes =
     (case opposingQuotes bet quotes of [] \<Rightarrow> None | q0 # qs \<Rightarrow> Some (best_quote q0 qs))"

text \<open>
  \<open>calculateHedgeSuggestion\<close> over the storage it reads and writes: the user bets by
  identifier, the status of each event, the quotes of each market as
  \<open>storage.getQuotes\<close> returns them (ordered by timestamp, newest first), and the
  hedge suggestions created so far (each with the identifier of its bet). The entry
  written to the audit log after a suggestion is created is left out.
\<close>

record hedge_store =
  hs_bets :: "string \<Rightarrow> user_bet option"
  hs_eventStatus :: "string \<Rightarrow> string option"
  hs_quotes :: "string \<Rightarrow> quote list"
  hs_suggestions :: "(string \<times> hedge_calculation) list"

definition calculateHedgeSuggestion ::
  "int \<Rightarrow> string \<Rightarrow> hedge_store \<Rightarrow> (string \<times> hedge_calculation) option \<times> hedge_store" where
  "calculateHedgeSuggestion now betId st =
     (case hs_bets st betId of
        None \<Rightarrow> (None, st)
      | Some bet \<Rightarrow>
          if \<not> ub_isTracked bet then (None, st)
          else
            (case hs_eventStatus st (ub_eventId bet) of
               None \<Rightarrow> (None, st)
             | Some status \<Rightarrow>
                 if status \<noteq> ''scheduled'' then (None, st)
                 else
                   (let quotes = hs_quotes st (ub_marketId bet) in
                    if length quotes = 0 then (None, st)
                    else
                      (case calculateHedge now bet quotes of
                         None \<Rightarrow> (None, st)
                       | Some hedgeCalculation \<Rightarrow>
                           (Some (ub_id bet, hedgeCalculation),
                            st\<lparr>hs_suggestions :=
                                 hs_suggestions st @ [(ub_id bet, hedgeCalculation)]\<rparr>)))))"

section \<open>Arbitrage service: estimate\<close>

datatype js_error = Error string

record estimate_request =
  rq_states :: "string list"
  rq_sports :: "string list option"
  rq_regions :: "string list option"
  rq_markets :: "string list option"
  rq_minProfitPct :: "jsnum option"

text \<open>An endpoint of the estimate; its description text is not modelled.\<close>

record endpoint =
  ep_name :: string
  ep_url :: string
  ep_estimatedRequests :: nat

record estimate_response =
  er_endpoints :: "endpoint list"
  er_totalEstimatedRequests :: nat
  er_estimatedCreditUsage :: nat
  er_eligibleBookmakers :: nat
  er_warningNote :: string

definition or_default :: "'a option \<Rightarrow> 'a \<Rightarrow> 'a" where
  "or_default v d = (case v of None \<Rightarrow> d | Some x \<Rightarrow> x)"

definition estimateAPIUsage :: "state_map \<Rightarrow> estimate_request \<Rightarrow> js_error + estimate_response" where
  "estimateAPIUsage stateMap request =
     (let states = rq_states request;
          sports = or_default (rq_sports request) [''all''];
          regions = or_default (rq_regions request) [''us'', ''us2'']
      in if states = [] then
           Inl (Error ''State filtering is mandatory - please select at least one state'')
         else
           (let enumeration =
                  (if ''all'' \<in> set sports
                   then [\<lparr>ep_name = ''Sports Enumeration'', ep_url = ''GET /v4/sports'',
                          ep_estimatedRequests = 1\<rparr>]
                   else []);
                selectedSports =
                  (if ''all'' \<in> set sports
                   then [''americanfootball_nfl'', ''basketball_nba'', ''baseball_mlb'',
                         ''icehockey_nhl'', ''soccer_epl'']
                   else sports);
                liveUpcomingRequests = length selectedSports * length regions;
                totalRequests = (if ''all'' \<in> set sports then 1 else 0) + liveUpcomingRequests;
                eligibleBookmakers = filterBookmakersByStates stateMap states;
                endpoints = enumeration @
                  [\<lparr>ep_name = ''Live & Upcoming Odds'', ep_url = ''GET /v4/sports/{sport}/odds'',
                    ep_estimatedRequests = liveUpcomingRequests\<rparr>,
                   \<lparr>ep_name = ''Event Details (on-demand)'',
                    ep_url = ''GET /v4/sports/{sport}/events/{event}/odds'',
                    ep_estimatedRequests = 0\<rparr>,
                   \<lparr>ep_name = ''Historical Data (feature flag)'',
                    ep_url = ''GET /v4/historical/sports/{sport}/odds'',
                    ep_estimatedRequests = 0\<rparr>];
                warningNote =
                  (if 50 < totalRequests
                   then ''High request count - consider narrowing sports or regions to reduce cost''
                   else if 20 < totalRequests
                   then ''Moderate request count - results will be comprehensive''
                   else ''Low request count - efficient scan'')
            in Inr \<lparr>er_endpoints = endpoints,
                     er_totalEstimatedRequests = totalRequests,
                     er_estimatedCreditUsage = totalRequests * 1,
                     er_eligibleBookmakers = length eligibleBookmakers,
                     er_warningNote = warningNote\<rparr>))"

section \<open>Arbitrage service: the scan\<close>

definition mockOddsData :: "odds_event list" where
  "mockOddsData =
     [\<lparr>ev_eventId = ''evt_nba_lakers_warriors_20250915'',
       ev_sport = ''NBA'',
       ev_league = ''National Basketball Association'',
       ev_homeTeam = ''Golden State Warriors'',
       ev_awayTeam = ''Los Angeles Lakers'',
       ev_startTime = ''2025-09-15T20:00:00Z'',
       ev_markets =
         [\<lparr>mk_type = ''h2h'', mk_description = ''Moneyline'',
           mk_outcomes =
             [\<lparr>oc_name = ''Golden State Warriors'',
               oc_bookmakers =
                 [\<lparr>bk_key = ''fanduel'', bk_price = Fin (- 110)\<rparr>,
                  \<lparr>bk_key = ''draftkings'', bk_price = Fin (- 105)\<rparr>,
                  \<lparr>bk_key = ''caesars'', bk_price = Fin (- 115)\<rparr>]\<rparr>,
              \<lparr>oc_name = ''Los Angeles Lakers'',
               oc_bookmakers =
                 [\<lparr>bk_key = ''fanduel'', bk_price = Fin 105\<rparr>,
                  \<lparr>bk_key = ''draftkings'', bk_price = Fin 110\<rparr>,
                  \<lparr>bk_key = ''caesars'', bk_price = Fin 100\<rparr>]\<rparr>]\<rparr>]\<rparr>]"

definition getMockArbitrageData :: "string list \<Rightarrow> odds_event list" where
  "getMockArbitrageData eligibleBookmakers =
     map (\<lambda>event. event\<lparr>ev_markets :=
            map (\<lambda>market. market\<lparr>mk_outcomes :=
                   map (\<lambda>outcome. outcome\<lparr>oc_bookmakers :=
                          filter (\<lambda>book. bk_key book \<in> set eligibleBookmakers)
                            (oc_bookmakers outcome)\<rparr>)
                     (mk_outcomes market)\<rparr>)
              (ev_markets event)\<rparr>)
       mockOddsData"

text \<open>
  \<open>convertToArbitrageFormat\<close> logs the sizes of its arguments and returns the empty
  array. Stored events are given by their identifiers.
\<close>

definition convertToArbitrageFormat :: "string list \<Rightarrow> quote list \<Rightarrow> string list \<Rightarrow> odds_event list" where
  "convertToArbitrageFormat events quotes eligibleBookmakers = []"

record comp_odd =
  co_sportsbook :: string
  co_price :: odds_text
  co_decimal :: jsnum

record comp_outcome =
  cc_name :: string
  cc_odds :: "comp_odd list"

record comp_market =
  cm_type :: string
  cm_description :: string
  cm_outcomes :: "comp_outcome list"

record comp_event =
  ce_event :: pick_event
  ce_status :: string
  ce_markets :: "comp_market list"

definition convertMockToComprehensiveFormat :: "odds_event list \<Rightarrow> comp_event list" where
  "convertMockToComprehensiveFormat mockOpportunities =
     map (\<lambda>mockEvent.
            \<lparr>ce_event =
               \<lparr>pe_id = ev_eventId mockEvent, pe_homeTeam = ev_homeTeam mockEvent,
                pe_awayTeam = ev_awayTeam mockEvent, pe_sport = ev_sport mockEvent,
                pe_league = ev_league mockEvent, pe_startTime = ev_startTime mockEvent\<rparr>,
             ce_status = ''scheduled'',
             ce_markets =
               map (\<lambda>market.
                      \<lparr>cm_type = mk_type market, cm_description = mk_description market,
                       cm_outcomes =
                         map (\<lambda>outcome.
                                \<lparr>cc_name = oc_name outcome,
                                 cc_odds =
                                   map (\<lambda>b. \<lparr>co_sportsbook = formatSportsbookName (bk_key b),
                                              co_price = formatOdds (bk_price b),
                                              co_decimal = convertAmericanToDecimal (bk_price b)\<rparr>)
                                     (oc_bookmakers outcome)\<rparr>)
                           (mk_outcomes market)\<rparr>)
                 (ev_markets mockEvent)\<rparr>)
       mockOpportunities"

text \<open>
  The collaborators of the scan. The odds provider answers one HTTP request per sport:
  \<open>e_fetch\<close> gives \<open>None\<close> for a request that fails or is not OK, and otherwise the
  events with the two credit headers. \<open>e_store\<close> stands for
  \<open>processAndStoreOddsData\<close> followed by reading the stored events and quotes back:
  \<open>None\<close> when a storage call throws, otherwise the display data, the stored events
  and the stored quotes. \<open>'a\<close> is the provider's event payload.
\<close>

record 'a env =
  e_apiKey :: bool
  e_fetch :: "string \<Rightarrow> ('a list \<times> nat option \<times> nat option) option"
  e_store :: "'a list \<Rightarrow> string list \<Rightarrow> (comp_event list \<times> string list \<times> quote list) option"

text \<open>
  What the scan changes: the number of requests sent to the odds provider, the job
  runs (name and status), the audit log (actor and action; a failed write is
  swallowed by the audit service) and the opportunities written to storage (kept as
  the pick each row is built from).
\<close>

record world =
  w_providerCalls :: nat
  w_jobRuns :: "(string \<times> string) list"
  w_auditLog :: "(string \<times> string) list"
  w_stored :: "max_profit_pick list"

definition audit_log :: "string \<Rightarrow> string \<Rightarrow> world \<Rightarrow> world" where
  "audit_log actor action w = w\<lparr>w_auditLog := w_auditLog w @ [(actor, action)]\<rparr>"

text \<open>The loop of \<open>fetchFromOddsAPI\<close> over the sports: one request each.\<close>

fun fetch_loop ::
  "'a env \<Rightarrow> string list \<Rightarrow> 'a list \<times> nat \<times> nat \<Rightarrow> world \<Rightarrow> ('a list \<times> nat \<times> nat) \<times> world" where
  "fetch_loop env [] acc w = (acc, w)"
| "fetch_loop env (sport # rest) (allOdds, used, remaining) w =
     (let w' = w\<lparr>w_providerCalls := w_providerCalls w + 1\<rparr> in
      case e_fetch env sport of
        None \<Rightarrow> fetch_loop env rest (allOdds, used, remaining) w'
      | Some (fetched, requestsUsed, remainingRequests) \<Rightarrow>
          fetch_loop env rest
            (allOdds @ fetched, or_default requestsUsed used,
             or_default remainingRequests remaining) w')"

definition fetchFromOddsAPI ::
  "'a env \<Rightarrow> string list \<Rightarrow> world \<Rightarrow> (js_error + 'a list \<times> nat \<times> nat) \<times> world" where
  "fetchFromOddsAPI env leagues w =
     (if \<not> e_apiKey env then (Inl (Error ''Odds API key not configured''), w)
      else (case fetch_loop env leagues ([], 0, 500) w of (r, w') \<Rightarrow> (Inr r, w')))"

record fetch_result =
  fr_opportunities :: "odds_event list"
  fr_comprehensiveData :: "comp_event list"
  fr_used :: nat
  fr_remaining :: nat

definition scan_sports :: "estimate_request \<Rightarrow> string list" where
  "scan_sports request =
     (case rq_sports request of
        None \<Rightarrow> [''basketball_nba'']
      | Some sports \<Rightarrow>
          if ''all'' \<in> set sports
          then [''basketball_nba'', ''americanfootball_nfl'', ''baseball_mlb'', ''icehockey_nhl'']
          else sports)"

text \<open>The code after the \<open>catch\<close> block of \<open>fetchAndStoreOddsData\<close>.\<close>

definition mock_fallback :: "string list \<Rightarrow> fetch_result" where
  "mock_fallback eligibleBookmakers =
     (let mockOpportunities = getMockArbitrageData eligibleBookmakers in
      \<lparr>fr_opportunities = mockOpportunities,
       fr_comprehensiveData = convertMockToComprehensiveFormat mockOpportunities,
       fr_used = 0, fr_remaining = 500\<rparr>)"

definition fetchAndStoreOddsData ::
  "'a env \<Rightarrow> estimate_request \<Rightarrow> string list \<Rightarrow> world \<Rightarrow> fetch_result \<times> world" where
  "fetchAndStoreOddsData env request eligibleBookmakers w =
     (case fetchFromOddsAPI env (scan_sports request) w of
        (Inl err, w') \<Rightarrow> (mock_fallback eligibleBookmakers, w')
      | (Inr (apiData, used, remaining), w') \<Rightarrow>
          (case e_store env apiData eligibleBookmakers of
             None \<Rightarrow> (mock_fallback eligibleBookmakers, w')
           | Some (comprehensiveData, events, allQuotes) \<Rightarrow>
               (let opportunities = convertToArbitrageFormat events allQuotes eligibleBookmakers in
                if length opportunities = 0 then
                  (\<lparr>fr_opportunities = getMockArbitrageData eligibleBookmakers,
                    fr_comprehensiveData = comprehensiveData,
                    fr_used = used, fr_remaining = remaining\<rparr>, w')
                else
                  (\<lparr>fr_opportunities = opportunities,
                    fr_comprehensiveData = comprehensiveData,
                    fr_used = used, fr_remaining = remaining\<rparr>, w'))))"

text \<open>
  \<open>opportunities.sort((a, b) => b.lockedProfit - a.lockedProfit)\<close>: a stable sort,
  larger locked profit first.
\<close>

fun insert_ranked :: "max_profit_pick \<Rightarrow> max_profit_pick list \<Rightarrow> max_profit_pick list" where
  "insert_ranked x [] = [x]"
| "insert_ranked x (y # ys) =
     (if js_gt (mp_lockedProfit y) (mp_lockedProfit x) then y # insert_ranked x ys
      else x # y # ys)"

definition rank_by_lockedProfit :: "max_profit_pick list \<Rightarrow> max_profit_pick list" where
  "rank_by_lockedProfit xs = foldr insert_ranked xs []"

text \<open>\<open>request.minProfitPct || 1.0\<close>: zero, NaN and a missing value give 1.\<close>

definition minProfit_or_default :: "estimate_request \<Rightarrow> jsnum" where
  "minProfit_or_default request =
     (case rq_minProfitPct request of
        None \<Rightarrow> Fin 1
      | Some x \<Rightarrow> if x = Fin 0 \<or> x = NaN then Fin 1 else x)"

fun join_comma :: "string list \<Rightarrow> string" where
  "join_comma [] = []"
| "join_comma [x] = x"
| "join_comma (x # xs) = x @ '', '' @ join_comma xs"

record scan_result =
  sr_maxProfitPick :: "max_profit_pick option"
  sr_rankedOpportunities :: "max_profit_pick list"
  sr_comprehensiveOddsData :: "comp_event list"
  sr_used :: nat
  sr_remaining :: nat

definition createJobRun :: "string \<Rightarrow> string \<Rightarrow> world \<Rightarrow> nat \<times> world" where
  "createJobRun jobName status w =
     (length (w_jobRuns w), w\<lparr>w_jobRuns := w_jobRuns w @ [(jobName, status)]\<rparr>)"

definition updateJobRun :: "nat \<Rightarrow> string \<Rightarrow> world \<Rightarrow> world" where
  "updateJobRun job status w =
     (if job < length (w_jobRuns w)
      then w\<lparr>w_jobRuns := (w_jobRuns w)[job := (fst (w_jobRuns w ! job), status)]\<rparr>
      else w)"

definition createArbitrageOpportunity :: "max_profit_pick \<Rightarrow> world \<Rightarrow> world" where
  "createArbitrageOpportunity maxProfitPick w = w\<lparr>w_stored := w_stored w @ [maxProfitPick]\<rparr>"

text \<open>
  \<open>scanArbitrageOpportunities\<close>: an error thrown inside the \<open>try\<close> block marks the
  job run as failed and is thrown again. The storage calls of the scan itself (the
  job run, the stored opportunity) are taken to succeed; the execution time, read
  from the clock, is left out of the result.
\<close>

definition scanArbitrageOpportunities ::
  "'a env \<Rightarrow> state_map \<Rightarrow> estimate_request \<Rightarrow> string \<Rightarrow> world \<Rightarrow> (js_error + scan_result) \<times> world" where
  "scanArbitrageOpportunities env stateMap request userId w =
     (case createJobRun ''arbitrage_scan'' ''running'' w of
        (job, w1) \<Rightarrow>
          (let w2 = audit_log userId ''arbitrage_scan_started'' w1;
               eligibleBookmakers = filterBookmakersByStates stateMap (rq_states request)
           in if length eligibleBookmakers = 0 then
                (Inl (Error (''No sportsbooks accessible in selected states: '' @
                        join_comma (rq_states request))),
                 updateJobRun job ''failed'' w2)
              else
                (case fetchAndStoreOddsData env request eligibleBookmakers w2 of
                   (fetched, w3) \<Rightarrow>
                     (let opportunities =
                            calculateArbitrageOpportunities (fr_opportunities fetched)
                              (minProfit_or_default request);
                          rankedOpportunities = rank_by_lockedProfit opportunities;
                          maxProfitPick =
                            (case rankedOpportunities of [] \<Rightarrow> None | x # xs \<Rightarrow> Some x);
                          w4 = (case maxProfitPick of
                                  None \<Rightarrow> w3
                                | Some x \<Rightarrow> createArbitrageOpportunity x w3);
                          w5 = updateJobRun job ''success'' w4;
                          w6 = audit_log userId ''arbitrage_scan_completed'' w5
                      in (Inr \<lparr>sr_maxProfitPick = maxProfitPick,
                               sr_rankedOpportunities = take 10 rankedOpportunities,
                               sr_comprehensiveOddsData = fr_comprehensiveData fetched,
                               sr_used = fr_used fetched,
                               sr_remaining = fr_remaining fetched\<rparr>, w6)))))"

section \<open>Routes of the estimate and the scan\<close>

text \<open>
  The body of a request as the schema of the route reads it. \<open>rb_states = None\<close>
  stands for a body whose \<open>states\<close> is missing or is not an array of strings,
  \<open>rb_confirmed = None\<close> for one whose \<open>confirmed\<close> is missing or not a boolean.
\<close>

record request_body =
  rb_states :: "string list option"
  rb_sports :: "string list option"
  rb_regions :: "string list option"
  rb_markets :: "string list option"
  rb_minProfitPct :: "jsnum option"
  rb_confirmed :: "bool option"

datatype 'r response = Ok200 'r | BadRequest400 string | ServerError500 string

text \<open>\<open>requestSchema.parse(req.body)\<close>: \<open>None\<close> is a thrown \<open>ZodError\<close>.\<close>

definition parse_estimate_body :: "request_body \<Rightarrow> estimate_request option" where
  "parse_estimate_body body =
     (case rb_states body of
        None \<Rightarrow> None
      | Some states \<Rightarrow>
          if length states < 1 then None
          else Some \<lparr>rq_states = states, rq_sports = rb_sports body,
                      rq_regions = rb_regions body, rq_markets = rb_markets body,
                      rq_minProfitPct = rb_minProfitPct body\<rparr>)"

definition parse_scan_body :: "request_body \<Rightarrow> estimate_request option" where
  "parse_scan_body body =
     (case parse_estimate_body body of
        None \<Rightarrow> None
      | Some request \<Rightarrow> if rb_confirmed body = Some True then Some request else None)"

definition post_estimate ::
  "state_map \<Rightarrow> string \<Rightarrow> request_body \<Rightarrow> world \<Rightarrow> estimate_response response \<times> world" where
  "post_estimate stateMap userId body w =
     (case parse_estimate_body body of
        None \<Rightarrow> (BadRequest400 ''Invalid request parameters'', w)
      | Some estimateRequest \<Rightarrow>
          (let w1 = audit_log userId ''estimate_requested'' w in
           case estimateAPIUsage stateMap estimateRequest of
             Inl err \<Rightarrow> (ServerError500 ''Failed to generate estimate'', w1)
           | Inr estimate \<Rightarrow> (Ok200 estimate, w1)))"

definition post_scan_arbs ::
  "'a env \<Rightarrow> state_map \<Rightarrow> string \<Rightarrow> request_body \<Rightarrow> world \<Rightarrow> scan_result response \<times> world" where
  "post_scan_arbs env stateMap userId body w =
     (case parse_scan_body body of
        None \<Rightarrow> (BadRequest400 ''Invalid request parameters'', w)
      | Some scanRequest \<Rightarrow>
          (let w1 = audit_log userId ''arbitrage_scan_confirmed'' w in
           case scanArbitrageOpportunities env stateMap scanRequest userId w1 of
             (Inl err, w2) \<Rightarrow> (ServerError500 ''Failed to execute arbitrage scan'', w2)
           | (Inr results, w2) \<Rightarrow> (Ok200 results, w2)))"

section \<open>Auxiliary notions for the proofs\<close>









text \<open>
  The groups of \<open>outcomeGroups\<close> are the quotes of each outcome, in the order of the
  input.
\<close>

definition groups_of :: "quote list \<Rightarrow> (string \<times> quote \<times> quote list) list \<Rightarrow> bool" where
  "groups_of quotes g =
     (distinct (map fst g) \<and>
      list_all (\<lambda>(k, q0, rest). q0 # rest = filter (\<lambda>q. q_outcomeId q = k) quotes) g \<and>
      list_all (\<lambda>q. q_outcomeId q \<in> fst ` set g) quotes)"

text \<open>
  \<open>first_best b xs\<close>: \<open>b\<close> is the first quote of \<open>xs\<close> whose price is not below the
  price of \<open>b\<close>, and no later quote has a higher price. So \<open>b\<close> has the highest price
  of \<open>xs\<close> and is the earliest quote of \<open>xs\<close> with that price.
\<close>

definition first_best :: "quote \<Rightarrow> quote list \<Rightarrow> bool" where
  "first_best b xs =
     (case dropWhile (\<lambda>q. js_lt (q_priceValue q) (q_priceValue b)) xs of
        [] \<Rightarrow> False
      | x # post \<Rightarrow> x = b \<and> list_all (\<lambda>q. js_le (q_priceValue q) (q_priceValue b)) post)"

text \<open>Quotes in the order of \<open>storage.getQuotes\<close>: by timestamp, newest first.\<close>

definition newest_first :: "quote list \<Rightarrow> bool" where
  "newest_first xs = sorted_wrt (\<lambda>a b. q_timestamp b \<le> q_timestamp a) xs"

text \<open>\<open>latest_of_price b xs\<close>: no quote of \<open>xs\<close> at the price of \<open>b\<close> is newer than \<open>b\<close>.\<close>

definition latest_of_price :: "quote \<Rightarrow> quote list \<Rightarrow> bool" where
  "latest_of_price b xs =
     list_all (\<lambda>q. q_priceValue q \<noteq> q_priceValue b \<or> q_timestamp q \<le> q_timestamp b) xs"

definition hedge_leg_of :: "user_bet \<Rightarrow> quote \<Rightarrow> hedge_leg" where
  "hedge_leg_of bet b =
     \<lparr>hl_sportsbookId = q_sportsbookId b, hl_outcomeId = q_outcomeId b,
      hl_priceValue = q_priceValue b, hl_stake = js_round (hedgeStake bet b)\<rparr>"

text \<open>
  The mock odds restricted to the bookmakers that are eligible, by which of its three
  bookmakers are.
\<close>

definition mock_with :: "bool \<Rightarrow> bool \<Rightarrow> bool \<Rightarrow> odds_event list" where
  "mock_with f d c =
     [\<lparr>ev_eventId = ''evt_nba_lakers_warriors_20250915'',
       ev_sport = ''NBA'',
       ev_league = ''National Basketball Association'',
       ev_homeTeam = ''Golden State Warriors'',
       ev_awayTeam = ''Los Angeles Lakers'',
       ev_startTime = ''2025-09-15T20:00:00Z'',
       ev_markets =
         [\<lparr>mk_type = ''h2h'', mk_description = ''Moneyline'',
           mk_outcomes =
             [\<lparr>oc_name = ''Golden State Warriors'',
               oc_bookmakers =
                 (if f then [\<lparr>bk_key = ''fanduel'', bk_price = Fin (- 110)\<rparr>] else []) @
                 (if d then [\<lparr>bk_key = ''draftkings'', bk_price = Fin (- 105)\<rparr>] else []) @
                 (if c then [\<lparr>bk_key = ''caesars'', bk_price = Fin (- 115)\<rparr>] else [])\<rparr>,
              \<lparr>oc_name = ''Los Angeles Lakers'',
               oc_bookmakers =
                 (if f then [\<lparr>bk_key = ''fanduel'', bk_price = Fin 105\<rparr>] else []) @
                 (if d then [\<lparr>bk_key = ''draftkings'', bk_price = Fin 110\<rparr>] else []) @
                 (if c then [\<lparr>bk_key = ''caesars'', bk_price = Fin 100\<rparr>] else [])\<rparr>]\<rparr>]\<rparr>]"

text \<open>Whether a market can yield an opportunity at some threshold.\<close>

definition below_margin :: "odds_market \<Rightarrow> bool" where
  "below_margin mk =
     (2 \<le> length (bestPrices mk) \<and> js_lt (implied_sum (bestPrices mk)) (Fin (98 / 100)))"

section \<open>Example inputs\<close>

text \<open>A two-way market priced at +120 and +100 by two bookmakers.\<close>

definition ex_market :: odds_market where
  "ex_market =
     \<lparr>mk_type = ''h2h'', mk_description = ''Moneyline'',
      mk_outcomes =
        [\<lparr>oc_name = ''Home'', oc_bookmakers = [\<lparr>bk_key = ''fanduel'', bk_price = Fin 120\<rparr>]\<rparr>,
         \<lparr>oc_name = ''Away'', oc_bookmakers = [\<lparr>bk_key = ''caesars'', bk_price = Fin 100\<rparr>]\<rparr>]\<rparr>"

definition ex_event :: odds_event where
  "ex_event =
     \<lparr>ev_eventId = ''evt_1'', ev_sport = ''NBA'', ev_league = ''NBA'',
      ev_homeTeam = ''Home'', ev_awayTeam = ''Away'', ev_startTime = ''2025-09-15T20:00:00Z'',
      ev_markets = [ex_market]\<rparr>"

definition ex_pick :: max_profit_pick where
  "ex_pick =
     \<lparr>mp_event = \<lparr>pe_id = ''evt_1'', pe_homeTeam = ''Home'', pe_awayTeam = ''Away'',
                  pe_sport = ''NBA'', pe_league = ''NBA'', pe_startTime = ''2025-09-15T20:00:00Z''\<rparr>,
      mp_market_type = ''H2H'', mp_market_description = ''Moneyline'',
      mp_legs =
        [\<lparr>leg_outcome = ''Home'', leg_sportsbook = ''FanDuel'', leg_odds = (''+'', Fin 120),
          leg_stake = Fin 4762\<rparr>,
         \<lparr>leg_outcome = ''Away'', leg_sportsbook = ''Caesars'', leg_odds = (''+'', Fin 100),
          leg_stake = Fin 5238\<rparr>],
      mp_profitPct = Fin (476 / 100), mp_lockedProfit = Fin (47619 / 100),
      mp_validityWindow = 300, mp_confidenceScore = Fin (95 / 100)\<rparr>"






text \<open>
  Three quotes on a two-way market: 2.10 and 2.15 on the first outcome, 1.90 on the
  second.
\<close>

definition ex_quotes :: "quote list" where
  "ex_quotes =
     [\<lparr>q_sportsbookId = ''A'', q_outcomeId = ''outcome_0'', q_priceValue = Fin (210 / 100),
       q_timestamp = 1000\<rparr>,
      \<lparr>q_sportsbookId = ''B'', q_outcomeId = ''outcome_0'', q_priceValue = Fin (215 / 100),
       q_timestamp = 2000\<rparr>,
      \<lparr>q_sportsbookId = ''C'', q_outcomeId = ''outcome_1'', q_priceValue = Fin (190 / 100),
       q_timestamp = 3000\<rparr>]"


text \<open>
  Two quotes of the first outcome at the same price, the older one first, and one
  quote of the second outcome.
\<close>

definition tie_old :: quote where
  "tie_old = \<lparr>q_sportsbookId = ''A'', q_outcomeId = ''outcome_0'', q_priceValue = Fin (210 / 100),
              q_timestamp = 1000\<rparr>"

definition tie_new :: quote where
  "tie_new = \<lparr>q_sportsbookId = ''B'', q_outcomeId = ''outcome_0'', q_priceValue = Fin (210 / 100),
              q_timestamp = 2000\<rparr>"

definition tie_other :: quote where
  "tie_other = \<lparr>q_sportsbookId = ''C'', q_outcomeId = ''outcome_1'', q_priceValue = Fin (195 / 100),
                q_timestamp = 3000\<rparr>"

text \<open>A bet of 100 at 2.20 on the second outcome, and one on the first.\<close>

definition bet_on_second :: user_bet where
  "bet_on_second =
     \<lparr>ub_id = ''bet_1'', ub_eventId = ''evt_1'', ub_marketId = ''mkt_1'',
      ub_outcomeId = ''outcome_1'', ub_stake = Fin 100, ub_priceAtBet = Fin (220 / 100),
      ub_isTracked = True\<rparr>"

definition bet_on_first :: user_bet where
  "bet_on_first = bet_on_second\<lparr>ub_outcomeId := ''outcome_0''\<rparr>"

text \<open>A quote of the second outcome whose stored price is zero.\<close>

definition zero_quote :: quote where
  "zero_quote = \<lparr>q_sportsbookId = ''C'', q_outcomeId = ''outcome_1'', q_priceValue = Fin 0,
                 q_timestamp = 3000\<rparr>"

definition zero_store :: hedge_store where
  "zero_store =
     \<lparr>hs_bets = (\<lambda>i. if i = ''bet_1'' then Some bet_on_first else None),
      hs_eventStatus = (\<lambda>e. if e = ''evt_1'' then Some ''scheduled'' else None),
      hs_quotes = (\<lambda>m. if m = ''mkt_1'' then [zero_quote] else []),
      hs_suggestions = []\<rparr>"
text \<open>The same three quotes as \<open>storage.getQuotes\<close> returns them, newest first.\<close>

definition stored_quotes :: "quote list" where
  "stored_quotes = [tie_other, tie_new, tie_old]"

text \<open>Collaborators: a provider without a key, and one that answers every request.\<close>

definition env_no_key :: "unit env" where
  "env_no_key = \<lparr>e_apiKey = False, e_fetch = (\<lambda>s. None), e_store = (\<lambda>a b. None)\<rparr>"

definition env_live :: "unit env" where
  "env_live =
     \<lparr>e_apiKey = True, e_fetch = (\<lambda>s. Some ([()], Some 3, Some 497)),
      e_store = (\<lambda>a b. Some ([], [''evt_1''], ex_quotes))\<rparr>"

definition world0 :: world where
  "world0 = \<lparr>w_providerCalls = 0, w_jobRuns = [], w_auditLog = [], w_stored = []\<rparr>"

definition ex_request :: estimate_request where
  "ex_request =
     \<lparr>rq_states = [''NJ'', ''PA''], rq_sports = Some [''all''], rq_regions = None,
      rq_markets = None, rq_minProfitPct = None\<rparr>"

definition empty_states_body :: request_body where
  "empty_states_body =
     \<lparr>rb_states = Some [], rb_sports = None, rb_regions = None, rb_markets = None,
      rb_minProfitPct = None, rb_confirmed = Some True\<rparr>"

definition valid_body :: request_body where
  "valid_body = empty_states_body\<lparr>rb_states := Some [''NJ'', ''PA'']\<rparr>"

section \<open>Properties\<close>

subsection \<open>Best prices of the scan\<close>























lemma ex_market_pick: "market_pick ex_event ex_market (Fin (4761 / 1000)) = Some ex_pick"
  by code_simp





subsection \<open>Reported profit percentage\<close>




text \<open>
  \<open>detectArbitrage\<close> reports another quantity, the margin \<open>(1 - T) * 100\<close>: at the
  example quotes (best prices 2.15 and 1.90) about 0.857, where
  \<open>(1 / T - 1) * 100\<close> is about 0.864.
\<close>

lemma detect_profit_is_margin:
  assumes "detectArbitrage now eventId marketId quotes = Some c"
  shows "ac_expectedProfitPct c = js_mul (js_sub (Fin 1) (totalImpliedProb quotes)) (Fin 100)"
  using assms by (auto simp: detectArbitrage_def Let_def split: if_splits)

lemma detect_profit_example:
  "map_option ac_expectedProfitPct (detectArbitrage 4000 ''evt_1'' ''mkt_1'' ex_quotes)
     = Some (Fin (700 / 817)) \<and>
   totalImpliedProb ex_quotes = Fin (810 / 817) \<and>
   profit_of_sum (totalImpliedProb ex_quotes) = Fin (700 / 810)"
  by code_simp

subsection \<open>Profit threshold\<close>






subsection \<open>No opportunity at a sum of one or more\<close>





subsection \<open>Stake allocation of the scan\<close>












subsection \<open>Grouping and best quotes of the detector\<close>

lemma group_push_keys: "fst ` set (group_push q g) = insert (q_outcomeId q) (fst ` set g)"
proof (induction g)
  case Nil
  then show ?case by simp
next
  case (Cons e g)
  obtain k q0 r where e: "e = (k, q0, r)" by (cases e) auto
  show ?case using Cons e by (cases "q_outcomeId q = k") auto
qed

lemma group_push_map_fst:
  "map fst (group_push q g) =
     (if q_outcomeId q \<in> fst ` set g then map fst g else map fst g @ [q_outcomeId q])"
proof (induction g)
  case Nil
  then show ?case by simp
next
  case (Cons e g)
  obtain k q0 r where e: "e = (k, q0, r)" by (cases e) auto
  show ?case using Cons e by (cases "q_outcomeId q = k") auto
qed

lemma group_push_entries:
  assumes "(k, q0, rest) \<in> set (group_push q g)" "distinct (map fst g)"
  shows "(k \<noteq> q_outcomeId q \<and> (k, q0, rest) \<in> set g) \<or>
         (k = q_outcomeId q \<and> (\<exists>r. rest = r @ [q] \<and> (k, q0, r) \<in> set g)) \<or>
         (k = q_outcomeId q \<and> k \<notin> fst ` set g \<and> q0 = q \<and> rest = [])"
  using assms
proof (induction g)
  case Nil
  then show ?case by simp
next
  case (Cons e g)
  obtain k' q' r' where e: "e = (k', q', r')" by (cases e) auto
  show ?case
  proof (cases "q_outcomeId q = k'")
    case True
    with Cons.prems e have "(k, q0, rest) = (k', q', r' @ [q]) \<or> (k, q0, rest) \<in> set g" by simp
    then show ?thesis
    proof
      assume "(k, q0, rest) = (k', q', r' @ [q])"
      then show ?thesis using True e by auto
    next
      assume in_g: "(k, q0, rest) \<in> set g"
      then have "k \<in> fst ` set g" by force
      then have "k \<noteq> k'" using Cons.prems(2) e by auto
      then show ?thesis using True in_g by auto
    qed
  next
    case False
    with Cons.prems e have "(k, q0, rest) = (k', q', r') \<or> (k, q0, rest) \<in> set (group_push q g)"
      by simp
    then show ?thesis
    proof
      assume "(k, q0, rest) = (k', q', r')"
      then show ?thesis using False e by auto
    next
      assume "(k, q0, rest) \<in> set (group_push q g)"
      moreover have "distinct (map fst g)" using Cons.prems(2) by simp
      ultimately show ?thesis using Cons.IH False e by force
    qed
  qed
qed

lemma groups_of_push:
  assumes "groups_of quotes g"
  shows "groups_of (quotes @ [q]) (group_push q g)"
proof -
  have d: "distinct (map fst g)"
    and f: "\<And>k q0 rest. (k, q0, rest) \<in> set g \<Longrightarrow> q0 # rest = filter (\<lambda>x. q_outcomeId x = k) quotes"
    and c: "\<And>x. x \<in> set quotes \<Longrightarrow> q_outcomeId x \<in> fst ` set g"
    using assms by (auto simp: groups_of_def list_all_iff)
  have d': "distinct (map fst (group_push q g))"
    using d by (auto simp: group_push_map_fst)
  have f': "q0 # rest = filter (\<lambda>x. q_outcomeId x = k) (quotes @ [q])"
    if "(k, q0, rest) \<in> set (group_push q g)" for k q0 rest
    using group_push_entries[OF that d]
  proof (elim disjE conjE exE)
    assume "k \<noteq> q_outcomeId q" "(k, q0, rest) \<in> set g"
    then show ?thesis using f by auto
  next
    fix r assume "k = q_outcomeId q" "rest = r @ [q]" "(k, q0, r) \<in> set g"
    then show ?thesis using f[of k q0 r] by auto
  next
    assume k: "k = q_outcomeId q" "k \<notin> fst ` set g" "q0 = q" "rest = []"
    have "q_outcomeId x \<noteq> k" if "x \<in> set quotes" for x
      using c[OF that] k(2) by auto
    then have "filter (\<lambda>x. q_outcomeId x = k) quotes = []"
      by (simp add: filter_empty_conv)
    then show ?thesis using k by simp
  qed
  have c': "q_outcomeId x \<in> fst ` set (group_push q g)" if "x \<in> set (quotes @ [q])" for x
    using that c by (auto simp: group_push_keys)
  show ?thesis
    unfolding groups_of_def list_all_iff using d' f' c' by auto
qed

lemma outcomeGroups_snoc: "outcomeGroups (quotes @ [q]) = group_push q (outcomeGroups quotes)"
  by (simp add: outcomeGroups_def)

lemma groups_of_outcomeGroups: "groups_of quotes (outcomeGroups quotes)"
proof (induction quotes rule: rev_induct)
  case Nil
  then show ?case by (simp add: groups_of_def outcomeGroups_def)
next
  case (snoc q quotes)
  then show ?case by (simp add: outcomeGroups_snoc groups_of_push)
qed

lemma outcomeGroups_filter:
  assumes "(k, q0, rest) \<in> set (outcomeGroups quotes)"
  shows "q0 # rest = filter (\<lambda>q. q_outcomeId q = k) quotes"
  using groups_of_outcomeGroups[of quotes] assms by (auto simp: groups_of_def list_all_iff)

lemma best_quote_snoc: "best_quote q0 (qs @ [q]) = better_quote (best_quote q0 qs) q"
  by (simp add: best_quote_def)

lemma best_quote_mem: "best_quote q0 qs \<in> set (q0 # qs)"
proof (induction qs rule: rev_induct)
  case Nil
  then show ?case by (simp add: best_quote_def)
next
  case (snoc q qs)
  then show ?case by (auto simp: best_quote_snoc better_quote_def)
qed

lemma bestOdds_mem:
  assumes "bo \<in> set (bestOdds quotes)"
  shows "bo_quote bo \<in> set quotes" "bo_price bo = q_priceValue (bo_quote bo)"
proof -
  from assms obtain k q0 rest where g: "(k, q0, rest) \<in> set (outcomeGroups quotes)"
    and bo: "bo = \<lparr>bo_outcomeId = k, bo_quote = best_quote q0 rest,
                     bo_price = q_priceValue (best_quote q0 rest)\<rparr>"
    by (auto simp: bestOdds_def Let_def)
  have "best_quote q0 rest \<in> set (filter (\<lambda>q. q_outcomeId q = k) quotes)"
    using best_quote_mem[of q0 rest] outcomeGroups_filter[OF g] by simp
  then show "bo_quote bo \<in> set quotes" using bo by simp
  show "bo_price bo = q_priceValue (bo_quote bo)" using bo by simp
qed

subsection \<open>Stake fractions of the detector\<close>





subsection \<open>Stake allocation\<close>









subsection \<open>Best quote selection\<close>

lemma js_lt_irrefl: "\<not> js_lt x x"
  by (cases x) auto

lemma js_lt_trans: "js_lt x y \<Longrightarrow> js_lt y z \<Longrightarrow> js_lt x z"
  by (cases x; cases y; cases z) auto

lemma js_le_lt_trans: "js_le x y \<Longrightarrow> js_lt y z \<Longrightarrow> js_lt x z"
  by (cases x; cases y; cases z) (auto simp: js_le_def)

lemma js_not_gt_le: "\<not> js_gt x y \<Longrightarrow> x \<noteq> NaN \<Longrightarrow> y \<noteq> NaN \<Longrightarrow> js_le x y"
  by (cases x; cases y) (auto simp: js_gt_def js_le_def)

lemma js_lt_imp_ne: "js_lt x y \<Longrightarrow> x \<noteq> y"
  using js_lt_irrefl by auto

lemma best_quote_split:
  assumes "list_all (\<lambda>q. q_priceValue q \<noteq> NaN) (q0 # qs)"
  shows "\<exists>pre post. q0 # qs = pre @ best_quote q0 qs # post \<and>
           (\<forall>q \<in> set pre. js_lt (q_priceValue q) (q_priceValue (best_quote q0 qs))) \<and>
           (\<forall>q \<in> set post. js_le (q_priceValue q) (q_priceValue (best_quote q0 qs)))"
  using assms
proof (induction qs rule: rev_induct)
  case Nil
  have "[q0] = [] @ q0 # []" by simp
  then show ?case unfolding best_quote_def by (intro exI[of _ "[]"]) simp
next
  case (snoc q qs)
  let ?b = "best_quote q0 qs"
  from snoc obtain pre post where sp: "q0 # qs = pre @ ?b # post"
    and pre: "\<forall>x \<in> set pre. js_lt (q_priceValue x) (q_priceValue ?b)"
    and post: "\<forall>x \<in> set post. js_le (q_priceValue x) (q_priceValue ?b)"
    by auto
  have nn: "q_priceValue q \<noteq> NaN" "q_priceValue ?b \<noteq> NaN"
    using snoc.prems best_quote_mem[of q0 qs] by (auto simp: list_all_iff)
  show ?case
  proof (cases "js_gt (q_priceValue q) (q_priceValue ?b)")
    case True
    then have b': "best_quote q0 (qs @ [q]) = q" by (simp add: best_quote_snoc better_quote_def)
    have lt: "js_lt (q_priceValue ?b) (q_priceValue q)" using True by (simp add: js_gt_def)
    have "q0 # (qs @ [q]) = (pre @ ?b # post) @ q # []" using sp by simp
    moreover have "\<forall>x \<in> set (pre @ ?b # post). js_lt (q_priceValue x) (q_priceValue q)"
      using pre post lt js_lt_trans js_le_lt_trans by auto
    ultimately show ?thesis unfolding b' by (intro exI[of _ "pre @ ?b # post"] exI[of _ "[]"]) simp
  next
    case False
    then have b': "best_quote q0 (qs @ [q]) = ?b" by (simp add: best_quote_snoc better_quote_def)
    have le: "js_le (q_priceValue q) (q_priceValue ?b)" using False nn by (rule js_not_gt_le)
    have "q0 # (qs @ [q]) = pre @ ?b # (post @ [q])" using sp by simp
    moreover have "\<forall>x \<in> set (post @ [q]). js_le (q_priceValue x) (q_priceValue ?b)"
      using post le by auto
    ultimately show ?thesis unfolding b' using pre
      by (intro exI[of _ pre] exI[of _ "post @ [q]"]) simp
  qed
qed

lemma split_first_best:
  assumes "xs = pre @ b # post"
    and "\<forall>q \<in> set pre. js_lt (q_priceValue q) (q_priceValue b)"
    and "\<forall>q \<in> set post. js_le (q_priceValue q) (q_priceValue b)"
  shows "first_best b xs"
proof -
  have "dropWhile (\<lambda>q. js_lt (q_priceValue q) (q_priceValue b)) xs = b # post"
    using assms(1,2) by (simp add: dropWhile_append2 js_lt_irrefl)
  then show ?thesis using assms(3) by (simp add: first_best_def list_all_iff)
qed

lemma split_latest:
  assumes "xs = pre @ b # post"
    and "\<forall>q \<in> set pre. js_lt (q_priceValue q) (q_priceValue b)"
    and "newest_first xs"
  shows "latest_of_price b xs"
proof -
  have "q_priceValue q \<noteq> q_priceValue b \<or> q_timestamp q \<le> q_timestamp b" if "q \<in> set xs" for q
  proof -
    from that assms(1) consider "q \<in> set pre" | "q = b" | "q \<in> set post" by auto
    then show ?thesis
    proof cases
      case 1
      then show ?thesis using assms(2) js_lt_imp_ne by blast
    next
      case 2
      then show ?thesis by simp
    next
      case 3
      then show ?thesis
        using assms(1,3) by (auto simp: newest_first_def sorted_wrt_append)
    qed
  qed
  then show ?thesis by (simp add: latest_of_price_def list_all_iff)
qed

lemma best_quote_first_best:
  assumes "list_all (\<lambda>q. q_priceValue q \<noteq> NaN) (q0 # qs)"
  shows "first_best (best_quote q0 qs) (q0 # qs)"
    and "newest_first (q0 # qs) \<Longrightarrow> latest_of_price (best_quote q0 qs) (q0 # qs)"
proof -
  from best_quote_split[OF assms] obtain pre post where
    h: "q0 # qs = pre @ best_quote q0 qs # post"
       "\<forall>q \<in> set pre. js_lt (q_priceValue q) (q_priceValue (best_quote q0 qs))"
       "\<forall>q \<in> set post. js_le (q_priceValue q) (q_priceValue (best_quote q0 qs))"
    by blast
  show "first_best (best_quote q0 qs) (q0 # qs)" using h by (rule split_first_best)
  show "latest_of_price (best_quote q0 qs) (q0 # qs)" if "newest_first (q0 # qs)"
    using h(1,2) that by (rule split_latest)
qed

lemma newest_first_filter: "newest_first xs \<Longrightarrow> newest_first (filter P xs)"
  by (simp add: newest_first_def sorted_wrt_filter)

lemma bestOdds_first_best:
  assumes nn: "list_all (\<lambda>q. q_priceValue q \<noteq> NaN) quotes" and bo: "bo \<in> set (bestOdds quotes)"
  shows "first_best (bo_quote bo) (filter (\<lambda>q. q_outcomeId q = bo_outcomeId bo) quotes)"
    and "newest_first quotes \<Longrightarrow>
         latest_of_price (bo_quote bo) (filter (\<lambda>q. q_outcomeId q = bo_outcomeId bo) quotes)"
proof -
  from bo obtain k q0 rest where g: "(k, q0, rest) \<in> set (outcomeGroups quotes)"
    and b: "bo = \<lparr>bo_outcomeId = k, bo_quote = best_quote q0 rest,
                   bo_price = q_priceValue (best_quote q0 rest)\<rparr>"
    by (auto simp: bestOdds_def Let_def)
  have grp: "q0 # rest = filter (\<lambda>q. q_outcomeId q = k) quotes" by (rule outcomeGroups_filter[OF g])
  have nn': "list_all (\<lambda>q. q_priceValue q \<noteq> NaN) (q0 # rest)"
    unfolding grp using nn by (simp add: list_all_iff)
  show "first_best (bo_quote bo) (filter (\<lambda>q. q_outcomeId q = bo_outcomeId bo) quotes)"
    using best_quote_first_best(1)[OF nn'] by (simp add: b grp)
  show "latest_of_price (bo_quote bo) (filter (\<lambda>q. q_outcomeId q = bo_outcomeId bo) quotes)"
    if "newest_first quotes"
  proof -
    have "newest_first (q0 # rest)" unfolding grp using that by (rule newest_first_filter)
    from best_quote_first_best(2)[OF nn' this] show ?thesis by (simp add: b grp)
  qed
qed

lemma bestOpposing_first_best:
  assumes nn: "list_all (\<lambda>q. q_priceValue q \<noteq> NaN) quotes"
    and b: "bestOpposingQuote bet quotes = Some b"
  shows "first_best b (opposingQuotes bet quotes)"
    and "newest_first quotes \<Longrightarrow> latest_of_price b (opposingQuotes bet quotes)"
proof -
  from b obtain q0 qs where op: "opposingQuotes bet quotes = q0 # qs" and bq: "b = best_quote q0 qs"
    by (auto simp: bestOpposingQuote_def split: list.splits)
  have nn': "list_all (\<lambda>q. q_priceValue q \<noteq> NaN) (q0 # qs)"
    unfolding op[symmetric] opposingQuotes_def using nn by (simp add: list_all_iff)
  show "first_best b (opposingQuotes bet quotes)"
    using best_quote_first_best(1)[OF nn'] by (simp add: op bq)
  show "latest_of_price b (opposingQuotes bet quotes)" if "newest_first quotes"
  proof -
    have "newest_first (q0 # qs)"
      unfolding op[symmetric] opposingQuotes_def using that by (rule newest_first_filter)
    from best_quote_first_best(2)[OF nn' this] show ?thesis by (simp add: op bq)
  qed
qed

lemma calculateHedge_SomeD:
  assumes "calculateHedge now bet quotes = Some h"
  shows "\<exists>b. bestOpposingQuote bet quotes = Some b \<and>
           hc_suggestedLegs h = [hedge_leg_of bet b] \<and>
           hc_lockedProfitLow h = js_min (profitIfOriginalWins bet b) (profitIfHedgeWins bet b) \<and>
           hc_lockedProfitHigh h = js_max (profitIfOriginalWins bet b) (profitIfHedgeWins bet b) \<and>
           \<not> js_le (hc_lockedProfitLow h) (Fin 0)"
  using assms
  by (auto simp: calculateHedge_def bestOpposingQuote_def hedge_leg_of_def Let_def
      split: list.splits if_splits)

lemma calculateHedge_eq:
  "calculateHedge now bet quotes =
     (case bestOpposingQuote bet quotes of
        None \<Rightarrow> None
      | Some b \<Rightarrow>
          if js_le (js_min (profitIfOriginalWins bet b) (profitIfHedgeWins bet b)) (Fin 0) then None
          else Some \<lparr>hc_suggestedLegs = [hedge_leg_of bet b],
                     hc_lockedProfitLow = js_min (profitIfOriginalWins bet b) (profitIfHedgeWins bet b),
                     hc_lockedProfitHigh = js_max (profitIfOriginalWins bet b) (profitIfHedgeWins bet b),
                     hc_confidence = calculateHedgeConfidence now b\<rparr>)"
  by (simp add: calculateHedge_def bestOpposingQuote_def hedge_leg_of_def Let_def split: list.splits)
lemma first_bestD:
  assumes "first_best b xs" "q_priceValue b \<noteq> NaN"
  shows "b \<in> set xs" and "list_all (\<lambda>q. js_le (q_priceValue q) (q_priceValue b)) xs"
proof -
  let ?P = "\<lambda>q. js_lt (q_priceValue q) (q_priceValue b)"
  from assms(1) obtain post where dw: "dropWhile ?P xs = b # post"
    and post: "list_all (\<lambda>q. js_le (q_priceValue q) (q_priceValue b)) post"
    by (auto simp: first_best_def split: list.splits)
  have xs: "xs = takeWhile ?P xs @ b # post" using dw takeWhile_dropWhile_id[of ?P xs] by simp
  then show "b \<in> set xs" by (metis in_set_conv_decomp)
  have "js_le (q_priceValue q) (q_priceValue b)" if "q \<in> set (takeWhile ?P xs)" for q
  proof -
    have "?P q" using set_takeWhileD[OF that] by simp
    then show ?thesis by (cases "q_priceValue q"; cases "q_priceValue b") (auto simp: js_le_def)
  qed
  moreover have "js_le (q_priceValue b) (q_priceValue b)" using assms(2) by (simp add: js_le_def)
  ultimately have "\<forall>q \<in> set (takeWhile ?P xs @ b # post). js_le (q_priceValue q) (q_priceValue b)"
    using post by (auto simp: list_all_iff)
  then show "list_all (\<lambda>q. js_le (q_priceValue q) (q_priceValue b)) xs"
    using xs by (simp add: list_all_iff)
qed

lemma stored_quotes_facts:
  "list_all (\<lambda>q. q_priceValue q \<noteq> NaN) stored_quotes" "newest_first stored_quotes"
  "map (\<lambda>bo. q_sportsbookId (bo_quote bo)) (bestOdds stored_quotes) = [''C'', ''B'']"
  by code_simp+

text \<open>
  Claim C9, as amended. Over quotes whose prices are not NaN, for each outcome the
  detector selects a quote of the highest price, and so does the hedge calculator
  among the opposing quotes; when several quotes share the highest price it keeps
  the one that comes first in its input. That one is the most recently captured when
  the quotes are given newest first, the order in which \<open>storage.getQuotes\<close> returns
  them.
\<close>

theorem C9_best_quote_is_first_of_highest_price:
  "list_all (\<lambda>q. q_priceValue q \<noteq> NaN) quotes \<longrightarrow>
     (\<forall>bo \<in> set (bestOdds quotes).
        bo_price bo = q_priceValue (bo_quote bo) \<and>
        bo_quote bo \<in> set (filter (\<lambda>q. q_outcomeId q = bo_outcomeId bo) quotes) \<and>
        list_all (\<lambda>q. js_le (q_priceValue q) (bo_price bo))
          (filter (\<lambda>q. q_outcomeId q = bo_outcomeId bo) quotes) \<and>
        first_best (bo_quote bo) (filter (\<lambda>q. q_outcomeId q = bo_outcomeId bo) quotes) \<and>
        (newest_first quotes \<longrightarrow>
           latest_of_price (bo_quote bo) (filter (\<lambda>q. q_outcomeId q = bo_outcomeId bo) quotes))) \<and>
     (\<forall>h. calculateHedge now bet quotes = Some h \<longrightarrow>
        (\<exists>b. bestOpposingQuote bet quotes = Some b \<and>
             hc_suggestedLegs h = [hedge_leg_of bet b] \<and>
             b \<in> set (opposingQuotes bet quotes) \<and>
             list_all (\<lambda>q. js_le (q_priceValue q) (q_priceValue b)) (opposingQuotes bet quotes) \<and>
             first_best b (opposingQuotes bet quotes) \<and>
             (newest_first quotes \<longrightarrow> latest_of_price b (opposingQuotes bet quotes))))"
proof (intro impI conjI ballI allI)
  fix bo
  assume nn: "list_all (\<lambda>q. q_priceValue q \<noteq> NaN) quotes" and bo: "bo \<in> set (bestOdds quotes)"
  let ?grp = "filter (\<lambda>q. q_outcomeId q = bo_outcomeId bo) quotes"
  show pr: "bo_price bo = q_priceValue (bo_quote bo)" by (rule bestOdds_mem(2)[OF bo])
  have nb: "q_priceValue (bo_quote bo) \<noteq> NaN"
    using bestOdds_mem(1)[OF bo] nn by (auto simp: list_all_iff)
  show fb: "first_best (bo_quote bo) ?grp" by (rule bestOdds_first_best(1)[OF nn bo])
  show "bo_quote bo \<in> set ?grp" by (rule first_bestD(1)[OF fb nb])
  show "list_all (\<lambda>q. js_le (q_priceValue q) (bo_price bo)) ?grp"
    unfolding pr by (rule first_bestD(2)[OF fb nb])
  show "latest_of_price (bo_quote bo) ?grp" if "newest_first quotes"
    using that by (rule bestOdds_first_best(2)[OF nn bo])
next
  fix h
  assume nn: "list_all (\<lambda>q. q_priceValue q \<noteq> NaN) quotes"
    and h: "calculateHedge now bet quotes = Some h"
  from calculateHedge_SomeD[OF h] obtain b where
    b: "bestOpposingQuote bet quotes = Some b" "hc_suggestedLegs h = [hedge_leg_of bet b]" by blast
  have fb: "first_best b (opposingQuotes bet quotes)" by (rule bestOpposing_first_best(1)[OF nn b(1)])
  have "b \<in> set (opposingQuotes bet quotes)"
    using b(1) best_quote_mem by (auto simp: bestOpposingQuote_def split: list.splits)
  then have nb: "q_priceValue b \<noteq> NaN" using nn by (auto simp: opposingQuotes_def list_all_iff)
  have lat: "newest_first quotes \<longrightarrow> latest_of_price b (opposingQuotes bet quotes)"
    using bestOpposing_first_best(2)[OF nn b(1)] by blast
  from b fb first_bestD[OF fb nb] lat
  show "\<exists>b. bestOpposingQuote bet quotes = Some b \<and>
             hc_suggestedLegs h = [hedge_leg_of bet b] \<and>
             b \<in> set (opposingQuotes bet quotes) \<and>
             list_all (\<lambda>q. js_le (q_priceValue q) (q_priceValue b)) (opposingQuotes bet quotes) \<and>
             first_best b (opposingQuotes bet quotes) \<and>
             (newest_first quotes \<longrightarrow> latest_of_price b (opposingQuotes bet quotes))"
    by blast
qed

text \<open>
  The theorem at three stored quotes, newest first, two of them at 2.10 on the first
  outcome: the detector keeps the newer one (sportsbook B), and so does the hedge of
  a bet on the second outcome.
\<close>

theorem C9_witness:
  "list_all (\<lambda>q. q_priceValue q \<noteq> NaN) stored_quotes \<and> newest_first stored_quotes \<and>
   map (\<lambda>bo. q_sportsbookId (bo_quote bo)) (bestOdds stored_quotes) = [''C'', ''B''] \<and>
   list_all (\<lambda>bo. latest_of_price (bo_quote bo)
                (filter (\<lambda>q. q_outcomeId q = bo_outcomeId bo) stored_quotes))
     (bestOdds stored_quotes) \<and>
   (\<exists>h b. calculateHedge 4000 bet_on_second stored_quotes = Some h \<and>
          bestOpposingQuote bet_on_second stored_quotes = Some b \<and>
          latest_of_price b (opposingQuotes bet_on_second stored_quotes))"
proof -
  note inst = C9_best_quote_is_first_of_highest_price[of stored_quotes 4000 bet_on_second]
  have "calculateHedge 4000 bet_on_second stored_quotes \<noteq> None" by code_simp
  then obtain h where h: "calculateHedge 4000 bet_on_second stored_quotes = Some h" by blast
  from inst stored_quotes_facts(1,2) have
    "\<forall>bo \<in> set (bestOdds stored_quotes).
       latest_of_price (bo_quote bo) (filter (\<lambda>q. q_outcomeId q = bo_outcomeId bo) stored_quotes)"
    by blast
  then have a: "list_all (\<lambda>bo. latest_of_price (bo_quote bo)
                (filter (\<lambda>q. q_outcomeId q = bo_outcomeId bo) stored_quotes))
     (bestOdds stored_quotes)"
    by (simp add: list_all_iff)
  from inst stored_quotes_facts(1,2) h obtain b where
    "bestOpposingQuote bet_on_second stored_quotes = Some b"
    "latest_of_price b (opposingQuotes bet_on_second stored_quotes)"
    by blast
  with a h stored_quotes_facts show ?thesis by blast
qed

text \<open>
  Claim C9 as stated fails when the older of two quotes at the highest price comes
  first: the detector and the hedge calculator both keep the older quote (sportsbook
  A, captured at 1000) although sportsbook B quoted the same price at 2000.
\<close>

theorem C9_counterexample:
  "map (\<lambda>bo. q_sportsbookId (bo_quote bo)) (bestOdds [tie_old, tie_new, tie_other]) = [''A'', ''C''] \<and>
   map_option (\<lambda>h. map hl_sportsbookId (hc_suggestedLegs h))
     (calculateHedge 4000 bet_on_second [tie_old, tie_new, tie_other]) = Some [''A''] \<and>
   q_sportsbookId tie_old = ''A'' \<and> q_sportsbookId tie_new = ''B'' \<and>
   q_outcomeId tie_old = q_outcomeId tie_new \<and>
   q_priceValue tie_old = q_priceValue tie_new \<and>
   q_timestamp tie_old < q_timestamp tie_new"
  by code_simp

subsection \<open>Hedge profit\<close>








subsection \<open>Hedge guard\<close>

lemma hedge_guard_null:
  assumes "bestOpposingQuote bet quotes = Some b"
    "js_le (js_min (profitIfOriginalWins bet b) (profitIfHedgeWins bet b)) (Fin 0)"
  shows "calculateHedge now bet quotes = None"
  using assms by (simp add: calculateHedge_eq)

lemma hedge_guard_emitted:
  assumes "calculateHedge now bet quotes = Some h"
  shows "\<not> js_le (hc_lockedProfitLow h) (Fin 0)"
  using calculateHedge_SomeD[OF assms] by blast

text \<open>
  Claim C6 fails on the code. The guard \<open>lockedProfitLow <= 0\<close> returns null for a
  zero or negative locked profit, but it lets NaN through: for a bet of 100 at 2.20
  whose only opposing quote has the stored price 0, \<open>calculateHedge\<close> returns a
  suggestion whose \<open>lockedProfitLow\<close> is NaN, which is not greater than zero, and
  \<open>calculateHedgeSuggestion\<close> stores it.
\<close>

theorem C6_suggestion_with_nan_profit:
  "map_option hc_lockedProfitLow (calculateHedge 4000 bet_on_first [zero_quote]) = Some NaN \<and>
   js_gt NaN (Fin 0) = False \<and>
   map (\<lambda>r. (fst r, hc_lockedProfitLow (snd r)))
     (hs_suggestions (snd (calculateHedgeSuggestion 4000 ''bet_1'' zero_store))) = [(''bet_1'', NaN)]"
  by code_simp

subsection \<open>State filter\<close>

lemma filter_step_cong: "set s1 = set s2 \<Longrightarrow> filter_step s1 = filter_step s2"
  by (simp add: fun_eq_iff filter_step_def)

lemma filter_order_irrelevant:
  assumes "set s1 = set s2"
  shows "filterBookmakersByStates stateMap s1 = filterBookmakersByStates stateMap s2"
proof -
  have "s1 = [] \<longleftrightarrow> s2 = []" using assms by (metis set_empty)
  then show ?thesis using filter_step_cong[OF assms] by (simp add: filterBookmakersByStates_def)
qed

lemma filter_step_skip:
  assumes "\<forall>e \<in> set xs. fst e \<notin> set states"
  shows "foldl (filter_step states) acc xs = acc"
  using assms by (induction xs arbitrary: acc) (auto simp: filter_step_def)

lemma set_uniq_aux:
  "set (foldl (\<lambda>seen x. if x \<in> set seen then seen else seen @ [x]) seen xs) = set seen \<union> set xs"
  by (induction xs arbitrary: seen) auto

lemma set_uniq: "set (uniq xs) = set xs"
  by (simp add: uniq_def set_uniq_aux)

lemma filter_single_listed:
  assumes d: "distinct (map fst stateMap)" and a: "(A, la) \<in> set stateMap"
  shows "set (filterBookmakersByStates stateMap [A]) = set la"
proof -
  from a obtain pre post where sm: "stateMap = pre @ (A, la) # post" by (auto dest: split_list)
  have "\<forall>e \<in> set pre. fst e \<notin> set [A]" "\<forall>e \<in> set post. fst e \<notin> set [A]"
    using d unfolding sm by auto
  then have s: "foldl (filter_step [A]) [] pre = []" "foldl (filter_step [A]) la post = la"
    by (simp_all add: filter_step_skip)
  have "filter_step [A] [] (A, la) = la" by (simp add: filter_step_def)
  then have "foldl (filter_step [A]) [] stateMap = la"
    unfolding sm by (simp only: foldl_append foldl.simps s)
  then show ?thesis by (simp add: filterBookmakersByStates_def set_uniq)
qed

lemma filter_pair_ordered:
  assumes sm: "stateMap = pre @ (A, la) # mid @ (B, lb) # post"
    and d: "distinct (map fst stateMap)" and ne: "la \<noteq> []"
    and st: "set states = {A, B}"
  shows "set (filterBookmakersByStates stateMap states) = set la \<inter> set lb"
proof -
  have skip: "\<forall>e \<in> set pre. fst e \<notin> set states" "\<forall>e \<in> set mid. fst e \<notin> set states"
    "\<forall>e \<in> set post. fst e \<notin> set states"
    using d unfolding sm st by auto
  have s1: "foldl (filter_step states) [] pre = []" by (rule filter_step_skip[OF skip(1)])
  have s2: "filter_step states [] (A, la) = la" using st by (simp add: filter_step_def)
  have s3: "foldl (filter_step states) la mid = la" by (rule filter_step_skip[OF skip(2)])
  have s4: "filter_step states la (B, lb) = filter (\<lambda>b. b \<in> set lb) la"
    using st ne by (simp add: filter_step_def)
  have s5: "foldl (filter_step states) (filter (\<lambda>b. b \<in> set lb) la) post =
              filter (\<lambda>b. b \<in> set lb) la"
    by (rule filter_step_skip[OF skip(3)])
  have "foldl (filter_step states) [] stateMap = filter (\<lambda>b. b \<in> set lb) la"
    unfolding sm by (simp only: foldl_append foldl.simps s1 s2 s3 s4 s5)
  moreover have "states \<noteq> []" using st by auto
  ultimately show ?thesis by (auto simp: filterBookmakersByStates_def set_uniq)
qed

text \<open>
  For two different states that the map lists, each with at least one bookmaker, the
  filter returns exactly the intersection of the two single-state results.
\<close>

lemma filter_pair_listed:
  assumes d: "distinct (map fst stateMap)"
    and a: "(A, la) \<in> set stateMap" and b: "(B, lb) \<in> set stateMap"
    and ne: "la \<noteq> []" "lb \<noteq> []" and ab: "A \<noteq> B"
  shows "set (filterBookmakersByStates stateMap [A, B]) =
           set (filterBookmakersByStates stateMap [A]) \<inter> set (filterBookmakersByStates stateMap [B])"
proof -
  from a obtain pre post where sm: "stateMap = pre @ (A, la) # post" by (auto dest: split_list)
  from b ab sm have "(B, lb) \<in> set pre \<or> (B, lb) \<in> set post" by auto
  then have "set (filterBookmakersByStates stateMap [A, B]) = set la \<inter> set lb"
  proof
    assume "(B, lb) \<in> set pre"
    then obtain p1 p2 where "pre = p1 @ (B, lb) # p2" by (auto dest: split_list)
    then have "stateMap = p1 @ (B, lb) # p2 @ (A, la) # post" using sm by simp
    from filter_pair_ordered[OF this d ne(2), of "[A, B]"] show ?thesis by auto
  next
    assume "(B, lb) \<in> set post"
    then obtain p1 p2 where "post = p1 @ (B, lb) # p2" by (auto dest: split_list)
    then have "stateMap = pre @ (A, la) # p1 @ (B, lb) # p2" using sm by simp
    from filter_pair_ordered[OF this d ne(1), of "[A, B]"] show ?thesis by auto
  qed
  then show ?thesis
    using filter_single_listed[OF d a] filter_single_listed[OF d b] by simp
qed

lemma defaultStateMap_wellformed:
  "distinct (map fst defaultStateMap)" "list_all (\<lambda>e. snd e \<noteq> []) defaultStateMap"
  by code_simp+

text \<open>
  Claim C5 fails on the code. A selected state code that the map does not list is
  skipped instead of emptying the result: for the District of Columbia (no entry)
  and New Jersey the filter returns the seven bookmakers of New Jersey, while the
  intersection of the two single-state results is empty. (The loop also takes an
  empty running result for its first iteration: with a state that lists no
  bookmaker before one that lists \<open>x\<close>, the pair yields \<open>x\<close>.)
\<close>

theorem C5_unlisted_state_is_skipped:
  "filterBookmakersByStates defaultStateMap [''DC'', ''NJ''] =
     [''draftkings'', ''fanduel'', ''caesars'', ''betmgm'', ''betrivers'', ''pointsbet'', ''wynnbet''] \<and>
   filterBookmakersByStates defaultStateMap [''NJ'', ''DC''] =
     [''draftkings'', ''fanduel'', ''caesars'', ''betmgm'', ''betrivers'', ''pointsbet'', ''wynnbet''] \<and>
   filterBookmakersByStates defaultStateMap [''DC''] = [] \<and>
   filterBookmakersByStates defaultStateMap [''NJ''] =
     [''draftkings'', ''fanduel'', ''caesars'', ''betmgm'', ''betrivers'', ''pointsbet'', ''wynnbet''] \<and>
   map_of defaultStateMap ''DC'' = None \<and>
   filterBookmakersByStates [(''S1'', []), (''S2'', [''x''])] [''S1'', ''S2''] = [''x''] \<and>
   filterBookmakersByStates [(''S1'', []), (''S2'', [''x''])] [''S1''] = []"
  by code_simp

subsection \<open>The scan and its mock odds\<close>

lemma fetch_opportunities_mock:
  "fr_opportunities (fst (fetchAndStoreOddsData env request eligibleBookmakers w)) =
     getMockArbitrageData eligibleBookmakers"
  by (auto simp: fetchAndStoreOddsData_def mock_fallback_def convertToArbitrageFormat_def Let_def
      split: prod.splits sum.splits option.splits)


lemma scan_result_from_mock:
  assumes "scanArbitrageOpportunities env stateMap request userId w = (Inr r, w')"
  shows "sr_rankedOpportunities r =
           take 10 (rank_by_lockedProfit
             (calculateArbitrageOpportunities
                (getMockArbitrageData (filterBookmakersByStates stateMap (rq_states request)))
                (minProfit_or_default request)))"
proof -
  let ?el = "filterBookmakersByStates stateMap (rq_states request)"
  obtain job w1 where j: "createJobRun ''arbitrage_scan'' ''running'' w = (job, w1)"
    by (cases "createJobRun ''arbitrage_scan'' ''running'' w") auto
  let ?w2 = "audit_log userId ''arbitrage_scan_started'' w1"
  obtain fetched w3 where f: "fetchAndStoreOddsData env request ?el ?w2 = (fetched, w3)"
    by (cases "fetchAndStoreOddsData env request ?el ?w2") auto
  have "fr_opportunities fetched = getMockArbitrageData ?el"
    using fetch_opportunities_mock[of env request ?el ?w2] f by simp
  then show ?thesis
    using assms j f by (auto simp: scanArbitrageOpportunities_def Let_def split: if_splits)
qed


lemma scan_no_key:
  "(case scanArbitrageOpportunities env_no_key defaultStateMap ex_request ''user_1'' world0 of
      (Inr r, w') \<Rightarrow>
        sr_rankedOpportunities r = [] \<and> sr_maxProfitPick r = None \<and>
        sr_comprehensiveOddsData r =
          convertMockToComprehensiveFormat
            (getMockArbitrageData (filterBookmakersByStates defaultStateMap (rq_states ex_request))) \<and>
        w_providerCalls w' = 0
    | (Inl e, w') \<Rightarrow> False)"
  by code_simp


text \<open>
  With the shipped mock table no selection of eligible bookmakers brings the sum of
  implied probabilities below 0.98 (the best prices -105 and +110 give about 0.988),
  so the calculation over the mock odds, and with it every scan, returns no
  opportunity.
\<close>

lemma getMock_eq_mock_with:
  "getMockArbitrageData eligibleBookmakers =
     mock_with (''fanduel'' \<in> set eligibleBookmakers) (''draftkings'' \<in> set eligibleBookmakers)
       (''caesars'' \<in> set eligibleBookmakers)"
  by (simp add: getMockArbitrageData_def mockOddsData_def mock_with_def)

lemma mock_with_all:
  "list_all (\<lambda>(f, d, c). list_all (\<lambda>e. list_all (\<lambda>k. \<not> below_margin k) (ev_markets e))
       (mock_with f d c))
     [(True, True, True), (True, True, False), (True, False, True), (True, False, False),
      (False, True, True), (False, True, False), (False, False, True), (False, False, False)]"
  by code_simp

lemma mock_with_above_margin:
  "list_all (\<lambda>e. list_all (\<lambda>k. \<not> below_margin k) (ev_markets e)) (mock_with f d c)"
  using mock_with_all by (cases f; cases d; cases c) simp_all

lemma market_pick_below_margin: "\<not> below_margin mk \<Longrightarrow> market_pick ev mk m = None"
  by (auto simp: below_margin_def market_pick_def Let_def)

lemma mock_yields_no_opportunity:
  "calculateArbitrageOpportunities (getMockArbitrageData eligibleBookmakers) m = []"
proof -
  have "\<forall>e \<in> set (getMockArbitrageData eligibleBookmakers). \<forall>k \<in> set (ev_markets e).
          market_pick e k m = None"
    using mock_with_above_margin market_pick_below_margin
    by (auto simp: getMock_eq_mock_with list_all_iff)
  then show ?thesis
    by (auto simp: calculateArbitrageOpportunities_def List.map_filter_def filter_empty_conv)
qed

lemma scan_returns_no_opportunity:
  assumes "scanArbitrageOpportunities env stateMap request userId w = (Inr r, w')"
  shows "sr_rankedOpportunities r = []"
  using scan_result_from_mock[OF assms]
  by (simp add: mock_yields_no_opportunity rank_by_lockedProfit_def)

subsection \<open>Empty state list\<close>

lemma fetch_loop_calls:
  "w_providerCalls (snd (fetch_loop env leagues acc w)) = w_providerCalls w + length leagues"
  by (induction env leagues acc w rule: fetch_loop.induct) (auto simp: Let_def split: option.splits)

text \<open>
  Claim C8. With an empty list of states, \<open>estimateAPIUsage\<close> throws at once (it
  never contacts the provider: it has no access to it), and the routes of the
  estimate and of the scan answer 400 from the validation of the body, before the
  audit log, the job run and any request to the provider: the world is unchanged.
  \<open>scanArbitrageOpportunities\<close> itself, called with an empty list, fails without any
  request to the provider.
\<close>

theorem C8_empty_states_rejected_before_any_call:
  "(rq_states request = [] \<longrightarrow>
      estimateAPIUsage stateMap request =
        Inl (Error ''State filtering is mandatory - please select at least one state'')) \<and>
   (rb_states body = Some [] \<longrightarrow>
      post_estimate stateMap userId body w = (BadRequest400 ''Invalid request parameters'', w) \<and>
      post_scan_arbs env stateMap userId body w = (BadRequest400 ''Invalid request parameters'', w)) \<and>
   (rq_states request = [] \<longrightarrow>
      (\<exists>e w'. scanArbitrageOpportunities env stateMap request userId w = (Inl e, w') \<and>
              w_providerCalls w' = w_providerCalls w \<and> w_stored w' = w_stored w))"
proof (intro conjI impI)
  assume "rq_states request = []"
  then show "estimateAPIUsage stateMap request =
        Inl (Error ''State filtering is mandatory - please select at least one state'')"
    by (simp add: estimateAPIUsage_def Let_def)
next
  assume "rb_states body = Some []"
  then show "post_estimate stateMap userId body w = (BadRequest400 ''Invalid request parameters'', w)"
    by (simp add: post_estimate_def parse_estimate_body_def)
next
  assume "rb_states body = Some []"
  then show "post_scan_arbs env stateMap userId body w = (BadRequest400 ''Invalid request parameters'', w)"
    by (simp add: post_scan_arbs_def parse_scan_body_def parse_estimate_body_def)
next
  assume "rq_states request = []"
  then show "\<exists>e w'. scanArbitrageOpportunities env stateMap request userId w = (Inl e, w') \<and>
              w_providerCalls w' = w_providerCalls w \<and> w_stored w' = w_stored w"
    by (simp add: scanArbitrageOpportunities_def filterBookmakersByStates_def createJobRun_def
        audit_log_def updateJobRun_def Let_def)
qed

text \<open>
  The theorem at a body with an empty list of states, with a provider that would
  answer; the same body with two states makes one request to the provider.
\<close>

theorem C8_witness:
  "rb_states empty_states_body = Some [] \<and>
   post_estimate defaultStateMap ''user_1'' empty_states_body world0 =
     (BadRequest400 ''Invalid request parameters'', world0) \<and>
   post_scan_arbs env_live defaultStateMap ''user_1'' empty_states_body world0 =
     (BadRequest400 ''Invalid request parameters'', world0) \<and>
   rq_states (ex_request\<lparr>rq_states := []\<rparr>) = [] \<and>
   estimateAPIUsage defaultStateMap (ex_request\<lparr>rq_states := []\<rparr>) =
     Inl (Error ''State filtering is mandatory - please select at least one state'') \<and>
   w_providerCalls (snd (scanArbitrageOpportunities env_live defaultStateMap
       (ex_request\<lparr>rq_states := []\<rparr>) ''user_1'' world0)) = 0 \<and>
   w_providerCalls (snd (post_scan_arbs env_live defaultStateMap ''user_1'' valid_body world0)) = 1"
proof -
  note inst = C8_empty_states_rejected_before_any_call
    [of "ex_request\<lparr>rq_states := []\<rparr>" defaultStateMap empty_states_body "''user_1''" world0 env_live]
  have b: "rb_states empty_states_body = Some []" by (simp add: empty_states_body_def)
  have q: "rq_states (ex_request\<lparr>rq_states := []\<rparr>) = []" by simp
  have v: "w_providerCalls (snd (post_scan_arbs env_live defaultStateMap ''user_1'' valid_body world0)) = 1"
    by code_simp
  have z: "w_providerCalls world0 = 0" by (simp add: world0_def)
  from inst b have
    "post_estimate defaultStateMap ''user_1'' empty_states_body world0 =
       (BadRequest400 ''Invalid request parameters'', world0)"
    "post_scan_arbs env_live defaultStateMap ''user_1'' empty_states_body world0 =
       (BadRequest400 ''Invalid request parameters'', world0)"
    by blast+
  moreover from inst q have
    "estimateAPIUsage defaultStateMap (ex_request\<lparr>rq_states := []\<rparr>) =
       Inl (Error ''State filtering is mandatory - please select at least one state'')"
    by blast
  moreover from inst q obtain e w' where
    "scanArbitrageOpportunities env_live defaultStateMap (ex_request\<lparr>rq_states := []\<rparr>) ''user_1'' world0
       = (Inl e, w')" "w_providerCalls w' = w_providerCalls world0"
    by blast
  then have "w_providerCalls (snd (scanArbitrageOpportunities env_live defaultStateMap
       (ex_request\<lparr>rq_states := []\<rparr>) ''user_1'' world0)) = 0"
    using z by simp
  ultimately show ?thesis using b q v by blast
qed

end
